theory Spec2Isabelle
  imports Complex_Main "HOL-Library.AList" "HOL-Library.Word"
begin

unbundle bit_operations_syntax

section \<open>JavaScript values\<close>

text \<open>
  The store of \<^verbatim>\<open>src/index.js\<close> (class \<^verbatim>\<open>DataOrbit\<close>, the second, current
  version in that file) keeps documents that are persisted as JSON. A value is therefore a
  JSON value; \<^verbatim>\<open>undefined\<close>, the result of reading an absent property, is
  \<open>None\<close> of \<open>jsval option\<close>. Numbers are mathematical integers: fractions,
  \<^verbatim>\<open>NaN\<close> and the rounding of doubles are outside of this development. Strings
  are sequences of 8-bit characters, which is JavaScript's view of them for ASCII text. Objects are
  association lists in insertion order; the prototype chain is not represented, and the rule
  that enumerates integer-like keys first is applied where the groups of an aggregation are
  listed, not to the fields of documents.
\<close>

datatype jsval =
    JNull
  | JBool bool
  | JNum int
  | JStr string
  | JArr "jsval list"
  | JObj "(string \<times> jsval) list"

type_synonym doc = "(string \<times> jsval) list"

text \<open>\<^verbatim>\<open>obj[key]\<close>: the property, or \<^verbatim>\<open>undefined\<close>.\<close>

definition get_prop :: "(string \<times> 'a) list \<Rightarrow> string \<Rightarrow> 'a option" where
  "get_prop obj key = map_of obj key"

text \<open>\<^verbatim>\<open>obj[key] = v\<close>: an existing key keeps its place, a new one goes last.\<close>

definition set_prop :: "string \<Rightarrow> 'a \<Rightarrow> (string \<times> 'a) list \<Rightarrow> (string \<times> 'a) list" where
  "set_prop key v obj = AList.update key v obj"

text \<open>\<^verbatim>\<open>delete obj[key]\<close>.\<close>

definition delete_prop :: "string \<Rightarrow> (string \<times> 'a) list \<Rightarrow> (string \<times> 'a) list" where
  "delete_prop key obj = AList.delete key obj"

text \<open>\<^verbatim>\<open>{ ...a, ...b }\<close>.\<close>

definition spread2 :: "doc \<Rightarrow> doc \<Rightarrow> doc" where
  "spread2 a b = foldl (\<lambda>acc kv. set_prop (fst kv) (snd kv) acc) a b"

text \<open>
  \<^verbatim>\<open>typeof v === 'object' && v !== null\<close>: objects and arrays.
\<close>

fun is_object :: "jsval \<Rightarrow> bool" where
  "is_object (JArr _) = True"
| "is_object (JObj _) = True"
| "is_object _ = False"

text \<open>
  Strict equality \<^verbatim>\<open>===\<close> (and the \<^verbatim>\<open>SameValueZero\<close> of
  \<^verbatim>\<open>Set.has\<close> and \<^verbatim>\<open>Array.includes\<close>, which differs only at
  \<^verbatim>\<open>NaN\<close>). Primitives compare by value. Two objects or arrays compare by
  reference; values carry no reference here, and every object met by a comparison in the
  store comes from a separate literal or \<^verbatim>\<open>JSON.parse\<close>, so they are unequal.
  Theorems that depend on such a comparison are stated for primitive values.
\<close>

fun strict_eq_val :: "jsval \<Rightarrow> jsval \<Rightarrow> bool" where
  "strict_eq_val JNull JNull = True"
| "strict_eq_val (JBool a) (JBool b) = (a = b)"
| "strict_eq_val (JNum a) (JNum b) = (a = b)"
| "strict_eq_val (JStr a) (JStr b) = (a = b)"
| "strict_eq_val _ _ = False"

fun strict_eq :: "jsval option \<Rightarrow> jsval option \<Rightarrow> bool" where
  "strict_eq None None = True"
| "strict_eq (Some a) (Some b) = strict_eq_val a b"
| "strict_eq _ _ = False"

fun primitive :: "jsval \<Rightarrow> bool" where
  "primitive (JArr _) = False"
| "primitive (JObj _) = False"
| "primitive _ = True"

text \<open>Truthiness, as \<^verbatim>\<open>!v\<close> and \<^verbatim>\<open>v || d\<close> read it.\<close>

fun truthy :: "jsval option \<Rightarrow> bool" where
  "truthy None = False"
| "truthy (Some JNull) = False"
| "truthy (Some (JBool b)) = b"
| "truthy (Some (JNum n)) = (n \<noteq> 0)"
| "truthy (Some (JStr s)) = (s \<noteq> [])"
| "truthy (Some (JArr _)) = True"
| "truthy (Some (JObj _)) = True"

subsection \<open>Conversion to strings and numbers\<close>

definition digit_char :: "nat \<Rightarrow> char" where
  "digit_char d = char_of (48 + d)"

fun string_of_nat :: "nat \<Rightarrow> string" where
  "string_of_nat n =
     (if n < 10 then [digit_char n] else string_of_nat (n div 10) @ [digit_char (n mod 10)])"

definition string_of_int :: "int \<Rightarrow> string" where
  "string_of_int i = (if i < 0 then CHR ''-'' # string_of_nat (nat (- i)) else string_of_nat (nat i))"

fun join_commas :: "string list \<Rightarrow> string" where
  "join_commas [] = []"
| "join_commas [s] = s"
| "join_commas (s # t # rest) = s @ CHR '','' # join_commas (t # rest)"

text \<open>
  \<^verbatim>\<open>String(v)\<close>, which is also the property key a value becomes in
  \<^verbatim>\<open>index[v]\<close>. An array is its elements joined by commas, \<^verbatim>\<open>null\<close>
  elements empty; a plain object is \<^verbatim>\<open>[object Object]\<close>.
\<close>

fun ToString :: "jsval \<Rightarrow> string"
  and elemToString :: "jsval \<Rightarrow> string"
  and elemsToString :: "jsval list \<Rightarrow> string list" where
  "ToString JNull = ''null''"
| "ToString (JBool b) = (if b then ''true'' else ''false'')"
| "ToString (JNum n) = string_of_int n"
| "ToString (JStr s) = s"
| "ToString (JArr xs) = join_commas (elemsToString xs)"
| "ToString (JObj _) = ''[object Object]''"
| "elemToString JNull = []"
| "elemToString (JBool b) = ToString (JBool b)"
| "elemToString (JNum n) = ToString (JNum n)"
| "elemToString (JStr s) = ToString (JStr s)"
| "elemToString (JArr xs) = ToString (JArr xs)"
| "elemToString (JObj kvs) = ToString (JObj kvs)"
| "elemsToString [] = []"
| "elemsToString (x # xs) = elemToString x # elemsToString xs"

definition ToStringU :: "jsval option \<Rightarrow> string" where
  "ToStringU v = (case v of None \<Rightarrow> ''undefined'' | Some x \<Rightarrow> ToString x)"

text \<open>
  \<^verbatim>\<open>ToNumber\<close> on a string: white space is trimmed, the empty string is 0, an optional
  sign and decimal digits are that integer, anything else is \<^verbatim>\<open>NaN\<close> (\<open>None\<close>).
  Literals with a fraction, an exponent or a radix prefix denote numbers that are not
  integers of this development and are read as \<^verbatim>\<open>NaN\<close> too.
\<close>

definition is_space :: "char \<Rightarrow> bool" where
  "is_space c = (c = CHR '' '' \<or> c = CHR 0x09 \<or> c = CHR 0x0A \<or> c = CHR 0x0D)"

definition is_digit :: "char \<Rightarrow> bool" where
  "is_digit c = (48 \<le> (of_char c :: nat) \<and> (of_char c :: nat) \<le> 57)"

definition trim :: "string \<Rightarrow> string" where
  "trim s = rev (dropWhile is_space (rev (dropWhile is_space s)))"

definition digits_value :: "string \<Rightarrow> nat" where
  "digits_value ds = foldl (\<lambda>acc c. 10 * acc + (of_char c - 48)) 0 ds"

definition StringToNumber :: "string \<Rightarrow> int option" where
  "StringToNumber s =
     (let t = trim s in
      if t = [] then Some 0
      else case t of
        c # ds \<Rightarrow>
          if (c = CHR ''-'' \<or> c = CHR ''+'') \<and> ds \<noteq> [] \<and> list_all is_digit ds
          then Some ((if c = CHR ''-'' then -1 else 1) * int (digits_value ds))
          else if list_all is_digit t then Some (int (digits_value t))
          else None)"

text \<open>\<^verbatim>\<open>ToPrimitive\<close>: arrays and objects become their strings.\<close>

fun ToPrimitive :: "jsval \<Rightarrow> jsval" where
  "ToPrimitive (JArr xs) = JStr (ToString (JArr xs))"
| "ToPrimitive (JObj kvs) = JStr (ToString (JObj kvs))"
| "ToPrimitive v = v"

fun ToNumber :: "jsval option \<Rightarrow> int option" where
  "ToNumber None = None"
| "ToNumber (Some JNull) = Some 0"
| "ToNumber (Some (JBool b)) = Some (if b then 1 else 0)"
| "ToNumber (Some (JNum n)) = Some n"
| "ToNumber (Some (JStr s)) = StringToNumber s"
| "ToNumber (Some (JArr xs)) = StringToNumber (ToString (JArr xs))"
| "ToNumber (Some (JObj kvs)) = StringToNumber (ToString (JObj kvs))"

text \<open>Strings compare by code unit, a proper prefix first.\<close>

fun string_less :: "string \<Rightarrow> string \<Rightarrow> bool" where
  "string_less [] [] = False"
| "string_less [] (y # ys) = True"
| "string_less (x # xs) [] = False"
| "string_less (x # xs) (y # ys) =
     (if (of_char x :: nat) < of_char y then True
      else if (of_char y :: nat) < of_char x then False
      else string_less xs ys)"

text \<open>
  The abstract relational comparison \<open>x < y\<close>: \<open>Some True\<close>, \<open>Some False\<close>, or
  \<open>None\<close> when an operand is \<^verbatim>\<open>NaN\<close>. The four operators read it as
  ECMAScript does.
\<close>

definition js_compare :: "jsval option \<Rightarrow> jsval option \<Rightarrow> bool option" where
  "js_compare x y =
     (case (map_option ToPrimitive x, map_option ToPrimitive y) of
        (Some (JStr a), Some (JStr b)) \<Rightarrow> Some (string_less a b)
      | (px, py) \<Rightarrow>
          (case (ToNumber px, ToNumber py) of
             (Some a, Some b) \<Rightarrow> Some (a < b)
           | _ \<Rightarrow> None))"

definition js_lt :: "jsval option \<Rightarrow> jsval option \<Rightarrow> bool" where
  "js_lt x y = (js_compare x y = Some True)"

definition js_gt :: "jsval option \<Rightarrow> jsval option \<Rightarrow> bool" where
  "js_gt x y = (js_compare y x = Some True)"

definition js_le :: "jsval option \<Rightarrow> jsval option \<Rightarrow> bool" where
  "js_le x y = (js_compare y x = Some False)"

definition js_ge :: "jsval option \<Rightarrow> jsval option \<Rightarrow> bool" where
  "js_ge x y = (js_compare x y = Some False)"

text \<open>\<^verbatim>\<open>Array.isArray(a) && a.includes(v)\<close> and its negated companion.\<close>

fun array_includes :: "jsval \<Rightarrow> jsval option \<Rightarrow> bool option" where
  "array_includes (JArr xs) v = Some (list_ex (\<lambda>x. strict_eq (Some x) v) xs)"
| "array_includes _ v = None"

text \<open>
  The own enumerable properties a \<^verbatim>\<open>for (const k in o)\<close> visits: the fields of an
  object, the indices of an array.
\<close>

fun entries :: "jsval \<Rightarrow> (string \<times> jsval) list" where
  "entries (JObj kvs) = kvs"
| "entries (JArr xs) = zip (map string_of_nat [0..<length xs]) xs"
| "entries _ = []"

section \<open>Query predicate\<close>

text \<open>
  \<^verbatim>\<open>_matchesOperators(value, operators)\<close>: a loop over the operator keys that returns
  \<^verbatim>\<open>false\<close> at the first failing one; a key that no \<^verbatim>\<open>case\<close> names falls
  through the \<^verbatim>\<open>switch\<close>.
\<close>

fun matchesOperators :: "jsval option \<Rightarrow> (string \<times> jsval) list \<Rightarrow> bool" where
  "matchesOperators v [] = True"
| "matchesOperators v ((opk, opValue) # rest) =
     (if opk = ''$gt'' then
        (if \<not> js_gt v (Some opValue) then False else matchesOperators v rest)
      else if opk = ''$gte'' then
        (if \<not> js_ge v (Some opValue) then False else matchesOperators v rest)
      else if opk = ''$lt'' then
        (if \<not> js_lt v (Some opValue) then False else matchesOperators v rest)
      else if opk = ''$lte'' then
        (if \<not> js_le v (Some opValue) then False else matchesOperators v rest)
      else if opk = ''$ne'' then
        (if strict_eq v (Some opValue) then False else matchesOperators v rest)
      else if opk = ''$in'' then
        (if array_includes opValue v \<noteq> Some True then False else matchesOperators v rest)
      else if opk = ''$nin'' then
        (if array_includes opValue v \<noteq> Some False then False else matchesOperators v rest)
      else matchesOperators v rest)"

text \<open>\<^verbatim>\<open>_matchesQuery(doc, query)\<close>.\<close>

fun matchesQuery :: "doc \<Rightarrow> (string \<times> jsval) list \<Rightarrow> bool" where
  "matchesQuery d [] = True"
| "matchesQuery d ((field, queryValue) # rest) =
     (if is_object queryValue then
        (if \<not> matchesOperators (get_prop d field) (entries queryValue) then False
         else matchesQuery d rest)
      else if \<not> strict_eq (get_prop d field) (Some queryValue) then False
      else matchesQuery d rest)"

subsection \<open>The predicate as the specification words it\<close>

datatype operator = Gt | Gte | Lt | Lte | Ne | In | Nin

definition supported_operators :: "(string \<times> operator) list" where
  "supported_operators =
     [(''$gt'', Gt), (''$gte'', Gte), (''$lt'', Lt), (''$lte'', Lte),
      (''$ne'', Ne), (''$in'', In), (''$nin'', Nin)]"

definition operator_of :: "string \<Rightarrow> operator option" where
  "operator_of k = map_of supported_operators k"

fun operator_holds :: "operator \<Rightarrow> jsval option \<Rightarrow> jsval \<Rightarrow> bool" where
  "operator_holds Gt v a = js_gt v (Some a)"
| "operator_holds Gte v a = js_ge v (Some a)"
| "operator_holds Lt v a = js_lt v (Some a)"
| "operator_holds Lte v a = js_le v (Some a)"
| "operator_holds Ne v a = (\<not> strict_eq v (Some a))"
| "operator_holds In v a = (array_includes a v = Some True)"
| "operator_holds Nin v a = (array_includes a v = Some False)"

text \<open>
  One field constraint of a query: an operator object asks for every one of its operators,
  a literal asks for equality.
\<close>

definition constraint_holds :: "doc \<Rightarrow> string \<times> jsval \<Rightarrow> bool" where
  "constraint_holds d c =
     (case c of (field, JObj ops) \<Rightarrow>
          list_all (\<lambda>(k, a). case operator_of k of
                       Some opr \<Rightarrow> operator_holds opr (get_prop d field) a
                     | None \<Rightarrow> False) ops
      | (field, lit) \<Rightarrow> strict_eq (get_prop d field) (Some lit))"

text \<open>
  A query in the grammar of the specification: every value is a primitive literal or an
  object whose keys are all among the seven operators.
\<close>

definition well_formed_query :: "(string \<times> jsval) list \<Rightarrow> bool" where
  "well_formed_query q =
     list_all (\<lambda>(field, qv). case qv of
                 JObj ops \<Rightarrow> list_all (\<lambda>(k, a). operator_of k \<noteq> None) ops
               | JArr _ \<Rightarrow> False
               | _ \<Rightarrow> True) q"

section \<open>The store\<close>

text \<open>
  \<^verbatim>\<open>config.tables[name]\<close>: \<^verbatim>\<open>{primaryKey, unique, schema}\<close>, each optional.
\<close>

record fieldSchema =
  ftype :: "string option"
  required :: bool

record tableConfig =
  primaryKey :: "string option"
  unique :: "string list option"
  schema :: "(string \<times> fieldSchema) list option"

type_synonym database = "(string \<times> doc list) list"

text \<open>
  The persisted file. \<^verbatim>\<open>saveDatabase\<close> writes
  \<^verbatim>\<open>encryptData(JSON.stringify(this.data))\<close> and \<^verbatim>\<open>loadDatabase\<close> reads it
  back through \<^verbatim>\<open>decryptData\<close> and \<^verbatim>\<open>JSON.parse\<close>; the codec is treated on its
  own in the section on the persistence codec, and the store keeps the saved Database itself
  as the content of the file.
\<close>

datatype file_state = Absent | Blank | Corrupt | Stored database

datatype error =
    RequiredField string string
  | FieldType string string
  | UniqueViolation
  | PrimaryKeyModified
  | TableExists string
  | SaveFailed
  | LoadFailed
  | TypeError
  | Thrown string

text \<open>
  The instance: \<^verbatim>\<open>this.config.tables\<close>, \<^verbatim>\<open>this.data\<close>,
  \<^verbatim>\<open>this.primaryKeyMap\<close>, \<^verbatim>\<open>this.uniqueKeyMap\<close> (a \<^verbatim>\<open>Set\<close> is the list of its
  members in insertion order), \<^verbatim>\<open>this.indexes\<close> (value key to position), the file, and
  what the code asks of its surroundings: whether a write succeeds
  (\<^verbatim>\<open>fs.writeFileSync\<close>), whether a path exists (\<^verbatim>\<open>fs.existsSync\<close>) and whether a
  value parses as a date (\<^verbatim>\<open>!isNaN(Date.parse(value))\<close>).
\<close>

record store =
  tables :: "(string \<times> tableConfig) list"
  data :: database
  primaryKeyMap :: "(string \<times> int) list"
  uniqueKeyMap :: "(string \<times> (string \<times> jsval list) list) list"
  indexes :: "(string \<times> (string \<times> (string \<times> nat) list) list) list"
  disk :: file_state
  fs_writable :: bool
  fs_exists :: "string \<Rightarrow> bool"
  date_parses :: "jsval \<Rightarrow> bool"

subsection \<open>Sets of values\<close>

definition set_has :: "jsval list \<Rightarrow> jsval \<Rightarrow> bool" where
  "set_has members v = list_ex (\<lambda>x. strict_eq_val x v) members"

definition set_add :: "jsval \<Rightarrow> jsval list \<Rightarrow> jsval list" where
  "set_add v members = (if set_has members v then members else members @ [v])"

definition set_delete :: "jsval \<Rightarrow> jsval list \<Rightarrow> jsval list" where
  "set_delete v members = filter (\<lambda>x. \<not> strict_eq_val x v) members"

subsection \<open>Configuration\<close>

text \<open>\<^verbatim>\<open>tableConfig.primaryKey || 'id'\<close>.\<close>

definition pk_or_id :: "string option \<Rightarrow> string" where
  "pk_or_id k = (case k of None \<Rightarrow> ''id'' | Some n \<Rightarrow> if n = [] then ''id'' else n)"

text \<open>
  \<^verbatim>\<open>(this.config.tables[tableName] || { primaryKey: 'id' }).primaryKey || 'id'\<close>.
\<close>

definition table_pk :: "store \<Rightarrow> string \<Rightarrow> string" where
  "table_pk s t =
     (case get_prop (tables s) t of None \<Rightarrow> ''id'' | Some cfg \<Rightarrow> pk_or_id (primaryKey cfg))"

text \<open>\<^verbatim>\<open>tableConfig.unique || []\<close>.\<close>

definition unique_or_empty :: "tableConfig \<Rightarrow> string list" where
  "unique_or_empty cfg = (case unique cfg of None \<Rightarrow> [] | Some u \<Rightarrow> u)"

text \<open>\<^verbatim>\<open>this.data[tableName]\<close> where the code has already established that it exists.\<close>

definition rows_of :: "store \<Rightarrow> string \<Rightarrow> doc list" where
  "rows_of s t = (case get_prop (data s) t of None \<Rightarrow> [] | Some rows \<Rightarrow> rows)"

subsection \<open>Indexes\<close>

text \<open>
  \<^verbatim>\<open>this.data[tableName].forEach((row, index) => ...)\<close> of \<^verbatim>\<open>_createIndex\<close>: the
  rows from position \<open>i\<close> on.
\<close>

fun populate_index :: "string \<Rightarrow> nat \<Rightarrow> doc list \<Rightarrow> (string \<times> nat) list \<Rightarrow> (string \<times> nat) list" where
  "populate_index field i [] idx = idx"
| "populate_index field i (row # rows) idx =
     populate_index field (Suc i) rows
       (case get_prop row field of
          None \<Rightarrow> idx
        | Some v \<Rightarrow> set_prop (ToString v) i idx)"

definition createIndex_internal :: "string \<Rightarrow> string \<Rightarrow> store \<Rightarrow> store" where
  "createIndex_internal t field s =
     (let tidx = (case get_prop (indexes s) t of None \<Rightarrow> [] | Some x \<Rightarrow> x);
          idx = (case get_prop (data s) t of
                   None \<Rightarrow> []
                 | Some rows \<Rightarrow> populate_index field 0 rows [])
      in s\<lparr>indexes := set_prop t (set_prop field idx tidx) (indexes s)\<rparr>)"

text \<open>\<^verbatim>\<open>_updateIndexes(tableName, doc, docIndex)\<close>.\<close>

definition updateIndexes :: "string \<Rightarrow> doc \<Rightarrow> nat \<Rightarrow> store \<Rightarrow> store" where
  "updateIndexes t d docIndex s =
     (let tidx = (case get_prop (indexes s) t of None \<Rightarrow> [] | Some x \<Rightarrow> x);
          tidx' = map (\<lambda>(field, idx).
                    (field, case get_prop d field of
                              None \<Rightarrow> idx
                            | Some v \<Rightarrow> set_prop (ToString v) docIndex idx)) tidx
      in s\<lparr>indexes := set_prop t tidx' (indexes s)\<rparr>)"

text \<open>\<^verbatim>\<open>_removeFromIndexes(tableName, doc)\<close>.\<close>

definition removeFromIndexes :: "string \<Rightarrow> doc \<Rightarrow> store \<Rightarrow> store" where
  "removeFromIndexes t d s =
     (case get_prop (indexes s) t of
        None \<Rightarrow> s
      | Some tidx \<Rightarrow>
          s\<lparr>indexes := set_prop t
               (map (\<lambda>(field, idx).
                  (field, case get_prop d field of
                            None \<Rightarrow> idx
                          | Some v \<Rightarrow> delete_prop (ToString v) idx)) tidx)
               (indexes s)\<rparr>)"

subsection \<open>Primary keys\<close>

text \<open>
  The value \<^verbatim>\<open>_calculateNextPrimaryKey\<close> stores: 1 for a missing or empty table, else
  one more than the largest positive number among the primary keys.
\<close>

definition max_numeric_key :: "string \<Rightarrow> doc list \<Rightarrow> int" where
  "max_numeric_key pk rows =
     foldl (\<lambda>maxValue row.
              case get_prop row pk of
                Some (JNum n) \<Rightarrow> if n > maxValue then n else maxValue
              | _ \<Rightarrow> maxValue) 0 rows"

definition calculated_key :: "store \<Rightarrow> string \<Rightarrow> string \<Rightarrow> int" where
  "calculated_key s t pk =
     (case get_prop (data s) t of
        None \<Rightarrow> 1
      | Some rows \<Rightarrow> if rows = [] then 1 else max_numeric_key pk rows + 1)"

definition calculateNextPrimaryKey :: "string \<Rightarrow> string \<Rightarrow> store \<Rightarrow> store" where
  "calculateNextPrimaryKey t pk s =
     s\<lparr>primaryKeyMap := set_prop t (calculated_key s t pk) (primaryKeyMap s)\<rparr>"

text \<open>
  \<^verbatim>\<open>getNextPrimaryKey(tableName)\<close>: a counter that is missing or 0 is recalculated
  first; the key handed out is the counter, which is then incremented.
\<close>

definition getNextPrimaryKey :: "string \<Rightarrow> store \<Rightarrow> int \<times> store" where
  "getNextPrimaryKey t s =
     (let s1 = (case get_prop (primaryKeyMap s) t of
                  None \<Rightarrow> calculateNextPrimaryKey t (table_pk s t) s
                | Some n \<Rightarrow> if n = 0 then calculateNextPrimaryKey t (table_pk s t) s else s);
          nextKey = (case get_prop (primaryKeyMap s1) t of None \<Rightarrow> 0 | Some n \<Rightarrow> n)
      in (nextKey, s1\<lparr>primaryKeyMap := set_prop t (nextKey + 1) (primaryKeyMap s1)\<rparr>))"

subsection \<open>Schema validation\<close>

text \<open>\<^verbatim>\<open>_validateFieldType(value, type)\<close>.\<close>

definition validateFieldType :: "store \<Rightarrow> jsval \<Rightarrow> string option \<Rightarrow> bool" where
  "validateFieldType s v ty =
     (if ty = Some ''Text'' then (case v of JStr _ \<Rightarrow> True | _ \<Rightarrow> False)
      else if ty = Some ''Number'' then (case v of JNum _ \<Rightarrow> True | _ \<Rightarrow> False)
      else if ty = Some ''Boolean'' then (case v of JBool _ \<Rightarrow> True | _ \<Rightarrow> False)
      else if ty = Some ''Date'' then date_parses s v
      else if ty = Some ''Object'' then (case v of JObj _ \<Rightarrow> True | _ \<Rightarrow> False)
      else if ty = Some ''Array'' then (case v of JArr _ \<Rightarrow> True | _ \<Rightarrow> False)
      else if ty = Some ''Path'' then (case v of JStr p \<Rightarrow> fs_exists s p | _ \<Rightarrow> False)
      else True)"

fun validate_fields :: "store \<Rightarrow> string \<Rightarrow> (string \<times> fieldSchema) list \<Rightarrow> doc \<Rightarrow> error option" where
  "validate_fields s t [] d = None"
| "validate_fields s t ((field, fs) # rest) d =
     (let absent = (get_prop d field = None \<or> get_prop d field = Some JNull) in
      if required fs \<and> absent then Some (RequiredField field t)
      else if \<not> absent \<and>
              \<not> validateFieldType s (case get_prop d field of Some v \<Rightarrow> v | None \<Rightarrow> JNull) (ftype fs)
      then Some (FieldType field (case ftype fs of None \<Rightarrow> ''undefined'' | Some ty \<Rightarrow> ty))
      else validate_fields s t rest d)"

text \<open>
  \<^verbatim>\<open>_validateDataAgainstSchema(tableName, data)\<close>: \<open>None\<close> when it returns, the error
  when it throws.
\<close>

definition validateDataAgainstSchema :: "store \<Rightarrow> string \<Rightarrow> doc \<Rightarrow> error option" where
  "validateDataAgainstSchema s t d =
     (case get_prop (tables s) t of
        None \<Rightarrow> None
      | Some cfg \<Rightarrow>
          (case schema cfg of
             None \<Rightarrow> None
           | Some sch \<Rightarrow> validate_fields s t sch d))"

subsection \<open>Uniqueness registry\<close>

text \<open>
  \<^verbatim>\<open>this.uniqueKeyMap[tableName] && this.uniqueKeyMap[tableName][uniqueKey] &&
  this.uniqueKeyMap[tableName][uniqueKey].has(v)\<close>.
\<close>

definition registry_has :: "store \<Rightarrow> string \<Rightarrow> string \<Rightarrow> jsval \<Rightarrow> bool" where
  "registry_has s t uniqueKey v =
     (case get_prop (uniqueKeyMap s) t of
        None \<Rightarrow> False
      | Some reg \<Rightarrow>
          (case get_prop reg uniqueKey of
             None \<Rightarrow> False
           | Some members \<Rightarrow> set_has members v))"

fun check_unique_keys :: "store \<Rightarrow> string \<Rightarrow> string list \<Rightarrow> doc \<Rightarrow> bool" where
  "check_unique_keys s t [] d = True"
| "check_unique_keys s t (uniqueKey # rest) d =
     (case get_prop d uniqueKey of
        None \<Rightarrow> check_unique_keys s t rest d
      | Some v \<Rightarrow>
          if v = JNull then check_unique_keys s t rest d
          else if registry_has s t uniqueKey v then False
          else check_unique_keys s t rest d)"

text \<open>\<^verbatim>\<open>_checkUniqueConstraints(tableName, data)\<close>.\<close>

definition checkUniqueConstraints :: "store \<Rightarrow> string \<Rightarrow> doc \<Rightarrow> bool" where
  "checkUniqueConstraints s t d =
     (case get_prop (tables s) t of
        None \<Rightarrow> True
      | Some cfg \<Rightarrow> check_unique_keys s t (unique_or_empty cfg) d)"

fun check_unique_keys_update :: "store \<Rightarrow> string \<Rightarrow> string list \<Rightarrow> doc \<Rightarrow> doc \<Rightarrow> bool" where
  "check_unique_keys_update s t [] newData originalData = True"
| "check_unique_keys_update s t (uniqueKey # rest) newData originalData =
     (if strict_eq (get_prop newData uniqueKey) (get_prop originalData uniqueKey)
      then check_unique_keys_update s t rest newData originalData
      else case get_prop newData uniqueKey of
        None \<Rightarrow> check_unique_keys_update s t rest newData originalData
      | Some v \<Rightarrow>
          if v = JNull then check_unique_keys_update s t rest newData originalData
          else if registry_has s t uniqueKey v then False
          else check_unique_keys_update s t rest newData originalData)"

text \<open>\<^verbatim>\<open>_checkUniqueConstraintsForUpdate(tableName, newData, originalData)\<close>.\<close>

definition checkUniqueConstraintsForUpdate :: "store \<Rightarrow> string \<Rightarrow> doc \<Rightarrow> doc \<Rightarrow> bool" where
  "checkUniqueConstraintsForUpdate s t newData originalData =
     (case get_prop (tables s) t of
        None \<Rightarrow> True
      | Some cfg \<Rightarrow> check_unique_keys_update s t (unique_or_empty cfg) newData originalData)"

text \<open>
  The loop of \<^verbatim>\<open>_updateUniqueKeyMap\<close> over the registry of one table: a missing
  \<^verbatim>\<open>Set\<close> is created, a value that is neither \<^verbatim>\<open>undefined\<close> nor
  \<^verbatim>\<open>null\<close> is added.
\<close>

fun add_unique_values :: "string list \<Rightarrow> doc \<Rightarrow> (string \<times> jsval list) list \<Rightarrow> (string \<times> jsval list) list" where
  "add_unique_values [] d reg = reg"
| "add_unique_values (uniqueKey # rest) d reg =
     (let members = (case get_prop reg uniqueKey of None \<Rightarrow> [] | Some m \<Rightarrow> m);
          members' = (case get_prop d uniqueKey of
                        None \<Rightarrow> members
                      | Some v \<Rightarrow> if v = JNull then members else set_add v members)
      in add_unique_values rest d (set_prop uniqueKey members' reg))"

definition updateUniqueKeyMap :: "string \<Rightarrow> doc \<Rightarrow> store \<Rightarrow> store" where
  "updateUniqueKeyMap t d s =
     (case get_prop (tables s) t of
        None \<Rightarrow> s
      | Some cfg \<Rightarrow>
          (let reg = (case get_prop (uniqueKeyMap s) t of None \<Rightarrow> [] | Some r \<Rightarrow> r)
           in s\<lparr>uniqueKeyMap :=
                  set_prop t (add_unique_values (unique_or_empty cfg) d reg) (uniqueKeyMap s)\<rparr>))"

text \<open>
  \<^verbatim>\<open>_removeFromUniqueKeyMap(tableName, doc)\<close>: the value of every unique key the
  document defines leaves its \<^verbatim>\<open>Set\<close>, where the table and the \<^verbatim>\<open>Set\<close> exist.
\<close>

fun remove_unique_values :: "string list \<Rightarrow> doc \<Rightarrow> (string \<times> jsval list) list \<Rightarrow> (string \<times> jsval list) list" where
  "remove_unique_values [] d reg = reg"
| "remove_unique_values (uniqueKey # rest) d reg =
     remove_unique_values rest d
       (case (get_prop reg uniqueKey, get_prop d uniqueKey) of
          (Some members, Some v) \<Rightarrow> set_prop uniqueKey (set_delete v members) reg
        | _ \<Rightarrow> reg)"

definition removeFromUniqueKeyMap :: "string \<Rightarrow> doc \<Rightarrow> store \<Rightarrow> store" where
  "removeFromUniqueKeyMap t d s =
     (case get_prop (tables s) t of
        None \<Rightarrow> s
      | Some cfg \<Rightarrow>
          (case get_prop (uniqueKeyMap s) t of
             None \<Rightarrow> s
           | Some reg \<Rightarrow>
               s\<lparr>uniqueKeyMap :=
                   set_prop t (remove_unique_values (unique_or_empty cfg) d reg) (uniqueKeyMap s)\<rparr>))"

text \<open>
  The loop of \<^verbatim>\<open>_updateUniqueKeyMapForUpdate\<close>. It calls \<^verbatim>\<open>delete\<close> and
  \<^verbatim>\<open>add\<close> on \<^verbatim>\<open>this.uniqueKeyMap[tableName][uniqueKey]\<close> without a guard: where
  the table has no registry or the key no \<^verbatim>\<open>Set\<close> the call raises a
  \<^verbatim>\<open>TypeError\<close>, with the keys before it already processed.
\<close>

fun update_unique_values ::
  "string list \<Rightarrow> doc \<Rightarrow> doc \<Rightarrow> (string \<times> jsval list) list option \<Rightarrow>
   bool \<times> (string \<times> jsval list) list option" where
  "update_unique_values [] newData originalData reg = (True, reg)"
| "update_unique_values (uniqueKey # rest) newData originalData reg =
     (if strict_eq (get_prop newData uniqueKey) (get_prop originalData uniqueKey)
      then update_unique_values rest newData originalData reg
      else
        (let old_v = (case get_prop originalData uniqueKey of
                        None \<Rightarrow> None
                      | Some v \<Rightarrow> if v = JNull then None else Some v);
             new_v = (case get_prop newData uniqueKey of
                        None \<Rightarrow> None
                      | Some v \<Rightarrow> if v = JNull then None else Some v)
         in if old_v = None \<and> new_v = None
            then update_unique_values rest newData originalData reg
            else
              (case reg of
                 None \<Rightarrow> (False, reg)
               | Some r \<Rightarrow>
                   (case get_prop r uniqueKey of
                      None \<Rightarrow> (False, reg)
                    | Some members \<Rightarrow>
                        (let m1 = (case old_v of None \<Rightarrow> members | Some v \<Rightarrow> set_delete v members);
                             m2 = (case new_v of None \<Rightarrow> m1 | Some v \<Rightarrow> set_add v m1)
                         in update_unique_values rest newData originalData
                              (Some (set_prop uniqueKey m2 r)))))))"

definition updateUniqueKeyMapForUpdate :: "string \<Rightarrow> doc \<Rightarrow> doc \<Rightarrow> store \<Rightarrow> bool \<times> store" where
  "updateUniqueKeyMapForUpdate t newData originalData s =
     (case get_prop (tables s) t of
        None \<Rightarrow> (True, s)
      | Some cfg \<Rightarrow>
          (case update_unique_values (unique_or_empty cfg) newData originalData
                  (get_prop (uniqueKeyMap s) t) of
             (ok, None) \<Rightarrow> (ok, s)
           | (ok, Some reg) \<Rightarrow> (ok, s\<lparr>uniqueKeyMap := set_prop t reg (uniqueKeyMap s)\<rparr>)))"

subsection \<open>Persistence\<close>

text \<open>\<^verbatim>\<open>saveDatabase()\<close>: the whole Database replaces the file, or the write fails.\<close>

definition saveDatabase :: "store \<Rightarrow> error + store" where
  "saveDatabase s = (if fs_writable s then Inr (s\<lparr>disk := Stored (data s)\<rparr>) else Inl SaveFailed)"









subsection \<open>Mutations\<close>

text \<open>
  Every operation returns its result, or the error it throws, together with the instance
  as the call leaves it: an exception does not undo the assignments made before it.
  \<^verbatim>\<open>new Date().toISOString()\<close> is the argument \<open>now\<close>.
\<close>

definition ensure_table :: "string \<Rightarrow> store \<Rightarrow> store" where
  "ensure_table t s =
     (if get_prop (data s) t = None
      then s\<lparr>data := set_prop t [] (data s), indexes := set_prop t [] (indexes s)\<rparr>
      else s)"

definition assign_primary_key :: "string \<Rightarrow> doc \<Rightarrow> store \<Rightarrow> doc \<times> store" where
  "assign_primary_key t newDoc s =
     (if get_prop newDoc (table_pk s t) = None
      then (case getNextPrimaryKey t s of
              (k, s') \<Rightarrow> (set_prop (table_pk s t) (JNum k) newDoc, s'))
      else (newDoc, s))"

definition stamp_new :: "string \<Rightarrow> doc \<Rightarrow> doc" where
  "stamp_new now newDoc = set_prop ''_updatedAt'' (JStr now) (set_prop ''_createdAt'' (JStr now) newDoc)"

definition push_row :: "string \<Rightarrow> doc \<Rightarrow> store \<Rightarrow> store" where
  "push_row t newDoc s = s\<lparr>data := set_prop t (rows_of s t @ [newDoc]) (data s)\<rparr>"

text \<open>\<^verbatim>\<open>insert(tableName, data)\<close>.\<close>

definition insert_doc :: "string \<Rightarrow> doc \<Rightarrow> string \<Rightarrow> store \<Rightarrow> (error + doc) \<times> store" where
  "insert_doc t d now s =
     (let s1 = ensure_table t s in
      case validateDataAgainstSchema s1 t d of
        Some e \<Rightarrow> (Inl e, s1)
      | None \<Rightarrow>
          (case assign_primary_key t d s1 of
             (keyed, s2) \<Rightarrow>
               if \<not> checkUniqueConstraints s2 t keyed then (Inl UniqueViolation, s2)
               else
                 (let newDoc = stamp_new now keyed;
                      s3 = push_row t newDoc s2;
                      docIndex = length (rows_of s3 t) - 1;
                      s4 = updateIndexes t newDoc docIndex s3;
                      s5 = updateUniqueKeyMap t newDoc s4
                  in case saveDatabase s5 of
                       Inl e \<Rightarrow> (Inl e, s5)
                     | Inr s6 \<Rightarrow> (Inr newDoc, s6))))"

text \<open>\<^verbatim>\<open>rows.findIndex(item => item[primaryKey] === id)\<close>, \<open>None\<close> for -1.\<close>

fun findIndex :: "('a \<Rightarrow> bool) \<Rightarrow> 'a list \<Rightarrow> nat option" where
  "findIndex p [] = None"
| "findIndex p (x # xs) = (if p x then Some 0 else map_option Suc (findIndex p xs))"

text \<open>\<^verbatim>\<open>rows.splice(index, 1)\<close>.\<close>

definition splice1 :: "nat \<Rightarrow> 'a list \<Rightarrow> 'a list" where
  "splice1 i rows = take i rows @ drop (Suc i) rows"

text \<open>
  \<^verbatim>\<open>delete(tableName, id)\<close>: the document leaves the indexes and the registry, then
  the sequence; nothing is done for the documents that move up.
\<close>

definition delete_doc :: "string \<Rightarrow> jsval \<Rightarrow> store \<Rightarrow> (error + bool) \<times> store" where
  "delete_doc t ident s =
     (case get_prop (data s) t of
        None \<Rightarrow> (Inr False, s)
      | Some rows \<Rightarrow>
          (case findIndex (\<lambda>item. strict_eq (get_prop item (table_pk s t)) (Some ident)) rows of
             None \<Rightarrow> (Inr False, s)
           | Some i \<Rightarrow>
               (let deletedDoc = rows ! i;
                    s1 = removeFromIndexes t deletedDoc s;
                    s2 = removeFromUniqueKeyMap t deletedDoc s1;
                    s3 = s2\<lparr>data := set_prop t (splice1 i rows) (data s2)\<rparr>
                in case saveDatabase s3 of
                     Inl e \<Rightarrow> (Inl e, s3)
                   | Inr s4 \<Rightarrow> (Inr True, s4))))"

text \<open>\<^verbatim>\<open>update(tableName, id, newData)\<close>; \<open>Inr None\<close> is the \<^verbatim>\<open>null\<close> result.\<close>

definition update_doc ::
  "string \<Rightarrow> jsval \<Rightarrow> doc \<Rightarrow> string \<Rightarrow> store \<Rightarrow> (error + doc option) \<times> store" where
  "update_doc t ident newData now s =
     (case get_prop (data s) t of
        None \<Rightarrow> (Inr None, s)
      | Some rows \<Rightarrow>
          (case findIndex (\<lambda>item. strict_eq (get_prop item (table_pk s t)) (Some ident)) rows of
             None \<Rightarrow> (Inr None, s)
           | Some i \<Rightarrow>
               (case validateDataAgainstSchema s t (spread2 (rows ! i) newData) of
                  Some e \<Rightarrow> (Inl e, s)
                | None \<Rightarrow>
                    (let originalDoc = rows ! i in
                     if get_prop newData (table_pk s t) \<noteq> None \<and>
                        \<not> strict_eq (get_prop newData (table_pk s t))
                             (get_prop originalDoc (table_pk s t))
                     then (Inl PrimaryKeyModified, s)
                     else
                       (let updatedDoc = set_prop ''_updatedAt'' (JStr now) (spread2 originalDoc newData) in
                        if \<not> checkUniqueConstraintsForUpdate s t updatedDoc originalDoc
                        then (Inl UniqueViolation, s)
                        else
                          (let s1 = removeFromIndexes t originalDoc s;
                               s2 = s1\<lparr>data := set_prop t (rows[i := updatedDoc]) (data s1)\<rparr>;
                               s3 = updateIndexes t updatedDoc i s2
                           in case updateUniqueKeyMapForUpdate t updatedDoc originalDoc s3 of
                                (False, s4) \<Rightarrow> (Inl TypeError, s4)
                              | (True, s4) \<Rightarrow>
                                  (case saveDatabase s4 of
                                     Inl e \<Rightarrow> (Inl e, s4)
                                   | Inr s5 \<Rightarrow> (Inr (Some updatedDoc), s5))))))))"

text \<open>
  \<^verbatim>\<open>createTable(tableName, schema)\<close>. A table the configuration does not know gets
  \<^verbatim>\<open>{primaryKey: 'id', schema: schema || {}}\<close>; the index is created on
  \<^verbatim>\<open>config.tables[tableName].primaryKey\<close> as it stands.
\<close>

definition createTable ::
  "string \<Rightarrow> (string \<times> fieldSchema) list option \<Rightarrow> store \<Rightarrow> (error + bool) \<times> store" where
  "createTable t sch s =
     (if get_prop (data s) t \<noteq> None then (Inl (TableExists t), s)
      else
        (let s1 = s\<lparr>data := set_prop t [] (data s)\<rparr>;
             s2 = (if get_prop (tables s1) t = None
                   then s1\<lparr>tables := set_prop t
                            \<lparr>primaryKey = Some ''id'', unique = None,
                             schema = Some (case sch of None \<Rightarrow> [] | Some x \<Rightarrow> x)\<rparr> (tables s1)\<rparr>
                   else s1);
             s3 = s2\<lparr>indexes := set_prop t [] (indexes s2)\<rparr>;
             field = (case get_prop (tables s3) t of
                        None \<Rightarrow> ''undefined''
                      | Some cfg \<Rightarrow> (case primaryKey cfg of None \<Rightarrow> ''undefined'' | Some k \<Rightarrow> k));
             s4 = createIndex_internal t field s3;
             s5 = s4\<lparr>uniqueKeyMap := set_prop t [] (uniqueKeyMap s4)\<rparr>
         in case saveDatabase s5 of
              Inl e \<Rightarrow> (Inl e, s5)
            | Inr s6 \<Rightarrow> (Inr True, s6)))"

text \<open>\<^verbatim>\<open>createIndex(tableName, field)\<close> and \<^verbatim>\<open>dropIndex(tableName, field)\<close>.\<close>

definition createIndex :: "string \<Rightarrow> string \<Rightarrow> store \<Rightarrow> bool \<times> store" where
  "createIndex t field s =
     (if get_prop (data s) t = None then (False, s) else (True, createIndex_internal t field s))"

definition dropIndex :: "string \<Rightarrow> string \<Rightarrow> store \<Rightarrow> bool \<times> store" where
  "dropIndex t field s =
     (case get_prop (indexes s) t of
        None \<Rightarrow> (False, s)
      | Some tidx \<Rightarrow>
          if get_prop tidx field = None then (False, s)
          else (True, s\<lparr>indexes := set_prop t (delete_prop field tidx) (indexes s)\<rparr>))"

subsection \<open>Queries\<close>

text \<open>
  \<^verbatim>\<open>rows[index]\<close>: the document, or \<^verbatim>\<open>undefined\<close> past the end.
\<close>

definition row_at :: "doc list \<Rightarrow> nat \<Rightarrow> doc option" where
  "row_at rows i = (if i < length rows then Some (rows ! i) else None)"

definition findAll :: "string \<Rightarrow> store \<Rightarrow> doc option list" where
  "findAll t s = (case get_prop (data s) t of None \<Rightarrow> [] | Some rows \<Rightarrow> map Some rows)"

text \<open>
  \<^verbatim>\<open>find(tableName, query)\<close>; \<open>None\<close> is a missing (\<^verbatim>\<open>null\<close>,
  \<^verbatim>\<open>undefined\<close>) query. A query of one field that has an index is answered from the
  index, whatever the value asked for is: the value becomes a property key.
\<close>

definition find_docs :: "string \<Rightarrow> (string \<times> jsval) list option \<Rightarrow> store \<Rightarrow> doc option list" where
  "find_docs t query s =
     (case get_prop (data s) t of
        None \<Rightarrow> []
      | Some rows \<Rightarrow>
          (case query of
             None \<Rightarrow> findAll t s
           | Some [] \<Rightarrow> findAll t s
           | Some ((queryField, queryValue) # others) \<Rightarrow>
               (case (if others = [] then
                        (case get_prop (indexes s) t of
                           None \<Rightarrow> None
                         | Some tidx \<Rightarrow> get_prop tidx queryField)
                      else None) of
                  Some idx \<Rightarrow>
                    (case get_prop idx (ToString queryValue) of
                       Some i \<Rightarrow> [row_at rows i]
                     | None \<Rightarrow> [])
                | None \<Rightarrow>
                    map Some (filter (\<lambda>d. matchesQuery d ((queryField, queryValue) # others)) rows))))"

text \<open>
  \<^verbatim>\<open>findById(tableName, id)\<close>; \<open>None\<close> is \<^verbatim>\<open>null\<close>. The copy
  \<^verbatim>\<open>{ ...rows[index] }\<close> of a position past the end is the empty object.
\<close>

definition findById :: "string \<Rightarrow> jsval \<Rightarrow> store \<Rightarrow> doc option" where
  "findById t ident s =
     (case get_prop (data s) t of
        None \<Rightarrow> None
      | Some rows \<Rightarrow>
          (case (case get_prop (indexes s) t of
                   None \<Rightarrow> None
                 | Some tidx \<Rightarrow> get_prop tidx (table_pk s t)) of
             Some idx \<Rightarrow>
               (case get_prop idx (ToString ident) of
                  Some i \<Rightarrow> Some (case row_at rows i of None \<Rightarrow> [] | Some d \<Rightarrow> d)
                | None \<Rightarrow> None)
           | None \<Rightarrow> List.find (\<lambda>d. strict_eq (get_prop d (table_pk s t)) (Some ident)) rows))"

subsection \<open>Transactions\<close>

text \<open>
  \<^verbatim>\<open>transaction(transactionFn)\<close>. The snapshot is
  \<^verbatim>\<open>JSON.stringify(this.data)\<close>, restored by \<^verbatim>\<open>JSON.parse\<close>: on JSON values
  that is the Database as it was. A failure of the function, or of the save that follows it,
  reaches the \<^verbatim>\<open>catch\<close>, which assigns the snapshot to \<^verbatim>\<open>this.data\<close> and
  throws the failure again.
\<close>

definition transaction ::
  "(store \<Rightarrow> (error + 'a) \<times> store) \<Rightarrow> store \<Rightarrow> (error + 'a) \<times> store" where
  "transaction transactionFn s =
     (let currentState = data s in
      case transactionFn s of
        (Inr result, s1) \<Rightarrow>
          (case saveDatabase s1 of
             Inr s2 \<Rightarrow> (Inr result, s2)
           | Inl e \<Rightarrow> (Inl e, s1\<lparr>data := currentState\<rparr>))
      | (Inl e, s1) \<Rightarrow> (Inl e, s1\<lparr>data := currentState\<rparr>))"

section \<open>Sequences of operations and observations on them\<close>

text \<open>The public mutations, as a caller strings them together.\<close>

datatype op =
    Insert string doc string
  | Update string jsval doc string
  | Delete string jsval

fun step :: "op \<Rightarrow> store \<Rightarrow> store" where
  "step (Insert t d now) s = snd (insert_doc t d now s)"
| "step (Update t ident newData now) s = snd (update_doc t ident newData now s)"
| "step (Delete t ident) s = snd (delete_doc t ident s)"

definition run :: "op list \<Rightarrow> store \<Rightarrow> store" where
  "run ops s = foldl (\<lambda>st x. step x st) s ops"



text \<open>The least key \<^verbatim>\<open>getNextPrimaryKey\<close> can still hand out for a table.\<close>

definition key_floor :: "store \<Rightarrow> string \<Rightarrow> int" where
  "key_floor s t =
     (case get_prop (primaryKeyMap s) t of None \<Rightarrow> 1 | Some n \<Rightarrow> if n = 0 then 1 else n)"

text \<open>A value is a member of the registry's \<^verbatim>\<open>Set\<close> for a field.\<close>

definition holds_value :: "(string \<times> jsval list) list \<Rightarrow> string \<Rightarrow> jsval \<Rightarrow> bool" where
  "holds_value reg f v = (case get_prop reg f of None \<Rightarrow> False | Some m \<Rightarrow> set_has m v)"

text \<open>\<^verbatim>\<open>this.config.tables[tableName].unique || []\<close>, empty for an unconfigured table.\<close>

definition unique_fields :: "store \<Rightarrow> string \<Rightarrow> string list" where
  "unique_fields s t = (case get_prop (tables s) t of None \<Rightarrow> [] | Some cfg \<Rightarrow> unique_or_empty cfg)"

text \<open>
  A transaction function that inserts one document and then throws; a failure of the insert
  itself is thrown as it is.
\<close>

definition insert_then_fail :: "string \<Rightarrow> doc \<Rightarrow> string \<Rightarrow> string \<Rightarrow> store \<Rightarrow> (error + unit) \<times> store" where
  "insert_then_fail t d now msg s =
     (case insert_doc t d now s of
        (Inl e, s1) \<Rightarrow> (Inl e, s1)
      | (Inr inserted, s1) \<Rightarrow> (Inl (Thrown msg), s1))"

text \<open>
  Every entry of every index of a table leads from a live document's value to the position
  that document has now.
\<close>

definition index_consistent :: "store \<Rightarrow> string \<Rightarrow> bool" where
  "index_consistent s t =
     (case get_prop (indexes s) t of
        None \<Rightarrow> True
      | Some tidx \<Rightarrow>
          list_all (\<lambda>(field, idx).
            list_all (\<lambda>(i, row).
                case get_prop row field of
                  None \<Rightarrow> True
                | Some v \<Rightarrow> get_prop idx (ToString v) = Some i)
              (zip [0..<length (rows_of s t)] (rows_of s t))) tidx)"

section \<open>The persistence codec\<close>

text \<open>
  Text is a sequence of UTF-16 code units, as \<^verbatim>\<open>charCodeAt\<close> and
  \<^verbatim>\<open>String.fromCharCode\<close> see it; a \<^verbatim>\<open>Buffer\<close> is a sequence of bytes.
\<close>

type_synonym ustring = "16 word list"

type_synonym bytes = "8 word list"

definition colon :: "16 word" where "colon = 58"

text \<open>
  \<^verbatim>\<open>buffer.toString('hex')\<close> and \<^verbatim>\<open>Buffer.from(s, 'hex')\<close>: two lower-case
  digits per byte; decoding stops at the first pair that is not hexadecimal.
\<close>

definition hex_digit :: "nat \<Rightarrow> 16 word" where
  "hex_digit n = (if n < 10 then of_nat (48 + n) else of_nat (87 + n))"

definition hex_encode :: "bytes \<Rightarrow> ustring" where
  "hex_encode bs = concat (map (\<lambda>b. [hex_digit (unat b div 16), hex_digit (unat b mod 16)]) bs)"

definition hex_value :: "16 word \<Rightarrow> nat option" where
  "hex_value c =
     (let u = unat c in
      if 48 \<le> u \<and> u \<le> 57 then Some (u - 48)
      else if 97 \<le> u \<and> u \<le> 102 then Some (u - 87)
      else if 65 \<le> u \<and> u \<le> 70 then Some (u - 55)
      else None)"

fun hex_decode :: "ustring \<Rightarrow> bytes" where
  "hex_decode (a # b # rest) =
     (case (hex_value a, hex_value b) of
        (Some h, Some l) \<Rightarrow> of_nat (16 * h + l) # hex_decode rest
      | _ \<Rightarrow> [])"
| "hex_decode _ = []"

text \<open>
  \<^verbatim>\<open>s.split(':')\<close>: the pieces between the separators, one more than there are
  separators.
\<close>

fun split_on :: "'a \<Rightarrow> 'a list \<Rightarrow> 'a list list" where
  "split_on sep [] = [[]]"
| "split_on sep (x # xs) =
     (if x = sep then [] # split_on sep xs
      else (case split_on sep xs of
              p # ps \<Rightarrow> (x # p) # ps
            | [] \<Rightarrow> [[x]]))"

text \<open>
  What the codec takes from \<^verbatim>\<open>crypto\<close> and \<^verbatim>\<open>JSON\<close>, which are not code of
  this repository: the key derived from the passphrase
  (\<^verbatim>\<open>createHash('sha256') ... digest('base64').substr(0, 32)\<close>), AES-256-CBC on the
  UTF-8 bytes of a text (\<^verbatim>\<open>final\<close> throws on a wrong padding: \<open>None\<close>), and
  \<^verbatim>\<open>JSON.stringify\<close> and \<^verbatim>\<open>JSON.parse\<close> (\<open>None\<close> for a
  \<^verbatim>\<open>SyntaxError\<close>). They are parameters of the codec.
\<close>

record codec_library =
  derive_key :: "ustring \<Rightarrow> bytes"
  aes_cbc_encrypt :: "bytes \<Rightarrow> bytes \<Rightarrow> ustring \<Rightarrow> bytes"
  aes_cbc_decrypt :: "bytes \<Rightarrow> bytes \<Rightarrow> bytes \<Rightarrow> ustring option"
  json_stringify :: "database \<Rightarrow> ustring"
  json_parse :: "ustring \<Rightarrow> database option"

datatype codec_error = InvalidIV | BadDecrypt | SyntaxError

text \<open>
  The scheme of the first version of the class (\<^verbatim>\<open>encryptData\<close> at the top of
  \<^verbatim>\<open>src/index.js\<close>) and \<^verbatim>\<open>_legacyDecrypt\<close> of the current one: code unit
  \<open>i\<close> is combined by exclusive or with unit \<open>i mod length\<close> of the passphrase. For
  an empty passphrase \<^verbatim>\<open>charCodeAt\<close> gives \<^verbatim>\<open>NaN\<close>, which the operator
  reads as 0.
\<close>

definition key_unit :: "ustring \<Rightarrow> nat \<Rightarrow> 16 word" where
  "key_unit encryptionKey i = (if encryptionKey = [] then 0 else encryptionKey ! (i mod length encryptionKey))"

fun xor_from :: "nat \<Rightarrow> ustring \<Rightarrow> ustring \<Rightarrow> ustring" where
  "xor_from i [] encryptionKey = []"
| "xor_from i (c # cs) encryptionKey = (c XOR key_unit encryptionKey i) # xor_from (Suc i) cs encryptionKey"

definition legacy_encryptData :: "ustring \<Rightarrow> ustring \<Rightarrow> ustring" where
  "legacy_encryptData plain encryptionKey = xor_from 0 plain encryptionKey"

definition legacyDecrypt :: "ustring \<Rightarrow> ustring \<Rightarrow> ustring" where
  "legacyDecrypt plain encryptionKey = xor_from 0 plain encryptionKey"

text \<open>
  \<^verbatim>\<open>encryptData(data, encryptionKey)\<close> of the current version;
  \<^verbatim>\<open>crypto.randomBytes(16)\<close> is the argument \<open>iv\<close>.
\<close>

definition encryptData :: "codec_library \<Rightarrow> bytes \<Rightarrow> ustring \<Rightarrow> ustring \<Rightarrow> ustring" where
  "encryptData lib iv plain encryptionKey =
     hex_encode iv @ colon # hex_encode (aes_cbc_encrypt lib (derive_key lib encryptionKey) iv plain)"

text \<open>
  \<^verbatim>\<open>decryptData(encryptedData, encryptionKey)\<close>: exactly two pieces are an
  initialisation vector and a ciphertext, anything else is handed to
  \<^verbatim>\<open>_legacyDecrypt\<close>. \<^verbatim>\<open>createDecipheriv\<close> refuses an initialisation
  vector that is not 16 bytes long.
\<close>

definition decryptData :: "codec_library \<Rightarrow> ustring \<Rightarrow> ustring \<Rightarrow> codec_error + ustring" where
  "decryptData lib encryptedData encryptionKey =
     (case split_on colon encryptedData of
        [part0, part1] \<Rightarrow>
          (let iv = hex_decode part0 in
           if length iv \<noteq> 16 then Inl InvalidIV
           else case aes_cbc_decrypt lib (derive_key lib encryptionKey) iv (hex_decode part1) of
                  None \<Rightarrow> Inl BadDecrypt
                | Some plain \<Rightarrow> Inr plain)
      | _ \<Rightarrow> Inr (legacyDecrypt encryptedData encryptionKey))"

text \<open>
  What \<^verbatim>\<open>saveDatabase\<close> writes and what \<^verbatim>\<open>loadDatabase\<close> makes of a
  file.
\<close>

definition serialize :: "codec_library \<Rightarrow> bytes \<Rightarrow> database \<Rightarrow> ustring \<Rightarrow> ustring" where
  "serialize lib iv db encryptionKey = encryptData lib iv (json_stringify lib db) encryptionKey"

definition deserialize :: "codec_library \<Rightarrow> ustring \<Rightarrow> ustring \<Rightarrow> codec_error + database" where
  "deserialize lib raw encryptionKey =
     (case decryptData lib raw encryptionKey of
        Inl e \<Rightarrow> Inl e
      | Inr plain \<Rightarrow> (case json_parse lib plain of None \<Rightarrow> Inl SyntaxError | Some db \<Rightarrow> Inr db))"

text \<open>
  The two facts about the libraries that the round trip rests on: decryption inverts
  encryption under the same key and a 16-byte initialisation vector, and parsing inverts
  serialisation of the Database at hand.
\<close>

definition cipher_inverts :: "codec_library \<Rightarrow> bool" where
  "cipher_inverts lib =
     (\<forall>k iv plain. length iv = 16 \<longrightarrow> aes_cbc_decrypt lib k iv (aes_cbc_encrypt lib k iv plain) = Some plain)"

definition json_inverts :: "codec_library \<Rightarrow> database \<Rightarrow> bool" where
  "json_inverts lib db = (json_parse lib (json_stringify lib db) = Some db)"

section \<open>The group stage of the aggregation pipeline\<close>

text \<open>
  The values a group holds while \<^verbatim>\<open>aggregate\<close> folds the documents: the total
  of a \<^verbatim>\<open>$sum\<close>, the \<^verbatim>\<open>{sum, count}\<close> pair of an \<^verbatim>\<open>$avg\<close>, the
  extreme of a \<^verbatim>\<open>$min\<close> or \<^verbatim>\<open>$max\<close> (which starts at an infinity), the array
  of a \<^verbatim>\<open>$push\<close>; and what the division at the end leaves, an exact quotient or
  \<^verbatim>\<open>NaN\<close>.
\<close>

datatype extnum = NegInf | Fin int | PosInf | NaN

datatype accval =
    Plain jsval
  | Running jsval nat
  | Extreme extnum
  | Pushed "jsval option list"
  | Average rat
  | NotANumber

record group =
  group_id :: "jsval option"
  group_fields :: "(string \<times> accval) list"

text \<open>
  \<^verbatim>\<open>stage.$group\<close>: the \<^verbatim>\<open>_id\<close> entry and the accumulator objects of the
  other fields.
\<close>

record group_spec =
  idField :: "jsval option"
  accumulators :: "(string \<times> (string \<times> jsval) list) list"

text \<open>
  \<^verbatim>\<open>typeof v === 'string' && v.startsWith('$')\<close>, and then
  \<^verbatim>\<open>v.substring(1)\<close>.
\<close>

fun source_field :: "jsval option \<Rightarrow> string option" where
  "source_field (Some (JStr (c # name))) = (if c = CHR ''$'' then Some name else None)"
| "source_field _ = None"

text \<open>
  \<^verbatim>\<open>doc[fieldName] || 0\<close>, the operator \<^verbatim>\<open>+\<close> of \<^verbatim>\<open>+=\<close> (a string
  on either side makes it a concatenation) and the final division.
\<close>

definition or_zero :: "jsval option \<Rightarrow> jsval" where
  "or_zero v = (if truthy v then (case v of Some x \<Rightarrow> x | None \<Rightarrow> JNum 0) else JNum 0)"

fun number_of_primitive :: "jsval \<Rightarrow> int" where
  "number_of_primitive (JNum n) = n"
| "number_of_primitive (JBool b) = (if b then 1 else 0)"
| "number_of_primitive _ = 0"

definition js_plus :: "jsval \<Rightarrow> jsval \<Rightarrow> jsval" where
  "js_plus a b =
     (case (ToPrimitive a, ToPrimitive b) of
        (JStr x, pb) \<Rightarrow> JStr (x @ ToString pb)
      | (pa, JStr y) \<Rightarrow> JStr (ToString pa @ y)
      | (pa, pb) \<Rightarrow> JNum (number_of_primitive pa + number_of_primitive pb))"

definition js_divide :: "jsval \<Rightarrow> nat \<Rightarrow> accval" where
  "js_divide s c =
     (case ToNumber (Some s) of
        Some n \<Rightarrow> Average (of_int n / of_nat c)
      | None \<Rightarrow> NotANumber)"

text \<open>
  \<^verbatim>\<open>Math.min\<close> and \<^verbatim>\<open>Math.max\<close>, and their second argument
  \<^verbatim>\<open>doc[fieldName] || Infinity\<close> (or \<^verbatim>\<open>-Infinity\<close>).
\<close>

fun math_min :: "extnum \<Rightarrow> extnum \<Rightarrow> extnum" where
  "math_min NaN _ = NaN"
| "math_min _ NaN = NaN"
| "math_min NegInf _ = NegInf"
| "math_min _ NegInf = NegInf"
| "math_min PosInf b = b"
| "math_min a PosInf = a"
| "math_min (Fin a) (Fin b) = Fin (min a b)"

fun math_max :: "extnum \<Rightarrow> extnum \<Rightarrow> extnum" where
  "math_max NaN _ = NaN"
| "math_max _ NaN = NaN"
| "math_max PosInf _ = PosInf"
| "math_max _ PosInf = PosInf"
| "math_max NegInf b = b"
| "math_max a NegInf = a"
| "math_max (Fin a) (Fin b) = Fin (max a b)"

definition or_extreme :: "jsval option \<Rightarrow> extnum \<Rightarrow> extnum" where
  "or_extreme v dflt =
     (if truthy v then (case ToNumber v of Some n \<Rightarrow> Fin n | None \<Rightarrow> NaN) else dflt)"

text \<open>
  The three loops \<^verbatim>\<open>for (const field in stage.$group) if (field !== '_id')\<close>
  differ in their bodies only: the body reads the accumulator object and the value the
  group holds for the field, and either assigns a new value or leaves the field alone.
\<close>

definition for_each_accumulator ::
  "((string \<times> jsval) list \<Rightarrow> accval option \<Rightarrow> accval option) \<Rightarrow>
   (string \<times> (string \<times> jsval) list) list \<Rightarrow> (string \<times> accval) list \<Rightarrow> (string \<times> accval) list" where
  "for_each_accumulator body accs start =
     foldl (\<lambda>fs (field, accumulator).
              if field \<noteq> ''_id'' then
                (case body accumulator (get_prop fs field) of
                   Some v \<Rightarrow> set_prop field v fs
                 | None \<Rightarrow> fs)
              else fs) start accs"

text \<open>
  The bodies: initialising a new group, folding one document in, and the division after
  the last document. Each follows the \<^verbatim>\<open>if / else if\<close> chain of the source, so
  an accumulator with a truthy \<^verbatim>\<open>$sum\<close> is a sum whatever else it names. The final
  loop asks for \<^verbatim>\<open>accumulator.$avg\<close> alone; on a value that is not a
  \<^verbatim>\<open>{sum, count}\<close> pair its division is \<^verbatim>\<open>undefined / 1\<close>.
\<close>

definition init_field :: "(string \<times> jsval) list \<Rightarrow> accval option \<Rightarrow> accval option" where
  "init_field accumulator cur =
     (if truthy (get_prop accumulator ''$sum'') then Some (Plain (JNum 0))
      else if truthy (get_prop accumulator ''$avg'') then Some (Running (JNum 0) 0)
      else if truthy (get_prop accumulator ''$min'') then Some (Extreme PosInf)
      else if truthy (get_prop accumulator ''$max'') then Some (Extreme NegInf)
      else if truthy (get_prop accumulator ''$push'') then Some (Pushed [])
      else None)"

definition update_field :: "doc \<Rightarrow> (string \<times> jsval) list \<Rightarrow> accval option \<Rightarrow> accval option" where
  "update_field d accumulator cur =
     (if truthy (get_prop accumulator ''$sum'') then
        (if get_prop accumulator ''$sum'' = Some (JNum 1) then
           (case cur of Some (Plain sofar) \<Rightarrow> Some (Plain (js_plus sofar (JNum 1))) | _ \<Rightarrow> None)
         else case source_field (get_prop accumulator ''$sum'') of
           Some fieldName \<Rightarrow>
             (case cur of
                Some (Plain sofar) \<Rightarrow> Some (Plain (js_plus sofar (or_zero (get_prop d fieldName))))
              | _ \<Rightarrow> None)
         | None \<Rightarrow> None)
      else if truthy (get_prop accumulator ''$avg'') then
        (case source_field (get_prop accumulator ''$avg'') of
           Some fieldName \<Rightarrow>
             (case cur of
                Some (Running s c) \<Rightarrow>
                  Some (Running (js_plus s (or_zero (get_prop d fieldName))) (c + 1))
              | _ \<Rightarrow> None)
         | None \<Rightarrow> None)
      else if truthy (get_prop accumulator ''$min'') then
        (case source_field (get_prop accumulator ''$min'') of
           Some fieldName \<Rightarrow>
             (case cur of
                Some (Extreme m) \<Rightarrow> Some (Extreme (math_min m (or_extreme (get_prop d fieldName) PosInf)))
              | _ \<Rightarrow> None)
         | None \<Rightarrow> None)
      else if truthy (get_prop accumulator ''$max'') then
        (case source_field (get_prop accumulator ''$max'') of
           Some fieldName \<Rightarrow>
             (case cur of
                Some (Extreme m) \<Rightarrow> Some (Extreme (math_max m (or_extreme (get_prop d fieldName) NegInf)))
              | _ \<Rightarrow> None)
         | None \<Rightarrow> None)
      else if truthy (get_prop accumulator ''$push'') then
        (case source_field (get_prop accumulator ''$push'') of
           Some fieldName \<Rightarrow>
             (case cur of
                Some (Pushed xs) \<Rightarrow> Some (Pushed (xs @ [get_prop d fieldName]))
              | _ \<Rightarrow> None)
         | None \<Rightarrow> None)
      else None)"

definition finalize_field :: "(string \<times> jsval) list \<Rightarrow> accval option \<Rightarrow> accval option" where
  "finalize_field accumulator cur =
     (if truthy (get_prop accumulator ''$avg'') then
        (case cur of
           Some (Running s c) \<Rightarrow> Some (js_divide s (if c = 0 then 1 else c))
         | _ \<Rightarrow> Some NotANumber)
      else None)"

text \<open>
  The callback of \<^verbatim>\<open>result.forEach\<close>: the key of the document's group, the
  group created on its first document, the accumulators advanced.
\<close>

definition group_key :: "group_spec \<Rightarrow> doc \<Rightarrow> jsval option" where
  "group_key spec d =
     (case source_field (idField spec) of
        Some fieldName \<Rightarrow> get_prop d fieldName
      | None \<Rightarrow> Some (JStr ''_all''))"

definition group_step :: "group_spec \<Rightarrow> (string \<times> group) list \<Rightarrow> doc \<Rightarrow> (string \<times> group) list" where
  "group_step spec groups d =
     (let groupKey = group_key spec d;
          groupKeyStr = ToStringU groupKey;
          g = (case get_prop groups groupKeyStr of
                 None \<Rightarrow> \<lparr>group_id = groupKey,
                           group_fields = for_each_accumulator init_field (accumulators spec) []\<rparr>
               | Some existing \<Rightarrow> existing)
      in set_prop groupKeyStr
           (g\<lparr>group_fields := for_each_accumulator (update_field d) (accumulators spec) (group_fields g)\<rparr>)
           groups)"

definition accumulate_groups :: "group_spec \<Rightarrow> doc list \<Rightarrow> (string \<times> group) list" where
  "accumulate_groups spec docs = foldl (group_step spec) [] docs"

definition finalize_group :: "group_spec \<Rightarrow> group \<Rightarrow> group" where
  "finalize_group spec g =
     g\<lparr>group_fields := for_each_accumulator finalize_field (accumulators spec) (group_fields g)\<rparr>"

text \<open>
  \<^verbatim>\<open>Object.values(groups)\<close> lists the keys that are array indices first, in
  ascending order, then the others as they were inserted.
\<close>

definition is_array_index :: "string \<Rightarrow> bool" where
  "is_array_index k =
     (k \<noteq> [] \<and> list_all is_digit k \<and> (k = ''0'' \<or> hd k \<noteq> CHR ''0'') \<and>
      digits_value k < 4294967295)"

definition own_property_order :: "(string \<times> 'a) list \<Rightarrow> (string \<times> 'a) list" where
  "own_property_order kvs =
     sort_key (\<lambda>kv. digits_value (fst kv)) (filter (\<lambda>kv. is_array_index (fst kv)) kvs) @
     filter (\<lambda>kv. \<not> is_array_index (fst kv)) kvs"

definition group_stage :: "group_spec \<Rightarrow> doc list \<Rightarrow> group list" where
  "group_stage spec docs =
     map (\<lambda>kv. finalize_group spec (snd kv)) (own_property_order (accumulate_groups spec docs))"

text \<open>
  The running sum and count of the specification: over the documents of one group, the sum
  of the source field (absent and falsy values count 0) and the number of documents; with
  no named source field neither advances.
\<close>

definition members :: "group_spec \<Rightarrow> string \<Rightarrow> doc list \<Rightarrow> doc list" where
  "members spec groupKeyStr docs = filter (\<lambda>d. ToStringU (group_key spec d) = groupKeyStr) docs"

definition sum_from :: "jsval option \<Rightarrow> jsval \<Rightarrow> doc list \<Rightarrow> jsval" where
  "sum_from valueField s0 ds =
     (case source_field valueField of
        Some fieldName \<Rightarrow> foldl (\<lambda>s d. js_plus s (or_zero (get_prop d fieldName))) s0 ds
      | None \<Rightarrow> s0)"

definition count_from :: "jsval option \<Rightarrow> nat \<Rightarrow> doc list \<Rightarrow> nat" where
  "count_from valueField c0 ds =
     (case source_field valueField of Some fieldName \<Rightarrow> c0 + length ds | None \<Rightarrow> c0)"




section \<open>Concrete stores, documents and queries\<close>

definition juan :: doc where
  "juan = [(''nombre'', JStr ''Juan''), (''edad'', JNum 25)]"

definition adult_juan_query :: "(string \<times> jsval) list" where
  "adult_juan_query =
     [(''edad'', JObj [(''$gte'', JNum 18), (''$lt'', JNum 30)]), (''nombre'', JStr ''Juan'')]"

definition fresh_store :: "(string \<times> tableConfig) list \<Rightarrow> store" where
  "fresh_store cfg =
     \<lparr>tables = cfg, data = [], primaryKeyMap = [], uniqueKeyMap = [], indexes = [],
      disk = Stored [], fs_writable = True, fs_exists = (\<lambda>p. False), date_parses = (\<lambda>v. False)\<rparr>"

definition ana :: doc where "ana = [(''nombre'', JStr ''Ana'')]"
definition luis :: doc where "luis = [(''nombre'', JStr ''Luis'')]"

definition ana_stored :: doc where
  "ana_stored = [(''nombre'', JStr ''Ana''), (''id'', JNum 1), (''_createdAt'', JStr ''t1''), (''_updatedAt'', JStr ''t1'')]"
definition luis_stored :: doc where
  "luis_stored = [(''nombre'', JStr ''Luis''), (''id'', JNum 2), (''_createdAt'', JStr ''t2''), (''_updatedAt'', JStr ''t2'')]"

definition usuarios_two :: store where
  "usuarios_two =
     run [Insert ''usuarios'' ana ''t1'', Insert ''usuarios'' luis ''t2'']
       (snd (createTable ''usuarios'' None (fresh_store [])))"

definition usuarios_after_delete :: store where
  "usuarios_after_delete = step (Delete ''usuarios'' (JNum 1)) usuarios_two"

definition id_above_zero :: "(string \<times> jsval) list" where
  "id_above_zero = [(''id'', JObj [(''$gt'', JNum 0)])]"


definition email_unique :: "(string \<times> tableConfig) list" where
  "email_unique = [(''usuarios'', \<lparr>primaryKey = None, unique = Some [''email''], schema = None\<rparr>)]"

definition ana_mail :: doc where "ana_mail = [(''email'', JStr ''ana@example.com'')]"

definition ana_mail_stored :: doc where
  "ana_mail_stored = [(''email'', JStr ''ana@example.com''), (''id'', JNum 1), (''_createdAt'', JStr ''t1''), (''_updatedAt'', JStr ''t1'')]"

definition one_user :: store where
  "one_user = snd (insert_doc ''usuarios'' ana_mail ''t1'' (fresh_store email_unique))"

definition dup_store :: store where
  "dup_store = run [Insert ''usuarios'' ana ''t1''] (fresh_store [])"

definition ana_twin :: doc where "ana_twin = [(''id'', JNum 1), (''nombre'', JStr ''Otra'')]"


text \<open>
  A stand-in for the two libraries, for evaluating the codec: the cipher writes each code
  unit as two bytes, and the serialiser knows the empty Database \<^verbatim>\<open>{}\<close> only.
\<close>

fun units_to_bytes :: "ustring \<Rightarrow> bytes" where
  "units_to_bytes [] = []"
| "units_to_bytes (u # us) = ucast (drop_bit 8 u) # ucast u # units_to_bytes us"

fun bytes_to_units :: "bytes \<Rightarrow> ustring option" where
  "bytes_to_units [] = Some []"
| "bytes_to_units [b] = None"
| "bytes_to_units (h # l # rest) =
     map_option (\<lambda>us. (push_bit 8 (ucast h) OR ucast l) # us) (bytes_to_units rest)"

definition plain_library :: codec_library where
  "plain_library =
     \<lparr>derive_key = (\<lambda>pass. []),
      aes_cbc_encrypt = (\<lambda>k iv plain. units_to_bytes plain),
      aes_cbc_decrypt = (\<lambda>k iv c. bytes_to_units c),
      json_stringify = (\<lambda>db. [123, 125]),
      json_parse = (\<lambda>plain. if plain = [123, 125] then Some [] else None)\<rparr>"

definition braces :: ustring where "braces = [123, 125]"

definition passphrase_k :: ustring where "passphrase_k = [107]"

definition passphrase_AB :: ustring where "passphrase_AB = [65, 66]"

definition zero_iv :: bytes where "zero_iv = replicate 16 0"








section \<open>Properties of the query predicate\<close>

lemma matchesOperators_supported:
  "list_all (\<lambda>(k, a). operator_of k \<noteq> None) ops \<Longrightarrow>
   matchesOperators v ops =
     list_all (\<lambda>(k, a). case operator_of k of
                  Some opr \<Rightarrow> operator_holds opr v a
                | None \<Rightarrow> False) ops"
proof (induction ops)
  case Nil
  then show ?case by simp
next
  case (Cons p ops)
  obtain k a where p: "p = (k, a)" by (cases p)
  from Cons.prems have rest: "list_all (\<lambda>(k, a). operator_of k \<noteq> None) ops"
    and k: "operator_of k \<noteq> None" by (simp_all add: p)
  from k show ?case
    using Cons.IH [OF rest]
    by (auto simp: p operator_of_def supported_operators_def split: if_splits)
qed

lemma matchesOperators_unsupported:
  "list_all (\<lambda>(k, a). operator_of k = None) ops \<Longrightarrow> matchesOperators v ops"
proof (induction ops)
  case Nil
  then show ?case by simp
next
  case (Cons p ops)
  obtain k a where p: "p = (k, a)" by (cases p)
  from Cons.prems have rest: "list_all (\<lambda>(k, a). operator_of k = None) ops"
    and k: "operator_of k = None" by (simp_all add: p)
  from k show ?case
    using Cons.IH [OF rest]
    by (auto simp: p operator_of_def supported_operators_def split: if_splits)
qed

text \<open>
  Claim C7. For a query whose values are literals or operator objects over the seven
  supported operators, \<^verbatim>\<open>_matchesQuery\<close> accepts a document exactly when every
  field constraint holds: the fields are combined by conjunction, and so are the operators
  given for one field.
\<close>

theorem matchesQuery_conjunction:
  "well_formed_query q \<Longrightarrow> matchesQuery d q \<longleftrightarrow> (\<forall>c \<in> set q. constraint_holds d c)"
proof (induction q)
  case Nil
  then show ?case by simp
next
  case (Cons c q)
  obtain field qv where c: "c = (field, qv)" by (cases c)
  from Cons.prems have wq: "well_formed_query q"
    by (simp add: well_formed_query_def)
  have head: "(if is_object qv then matchesOperators (get_prop d field) (entries qv)
               else strict_eq (get_prop d field) (Some qv)) = constraint_holds d (field, qv)"
  proof (cases qv)
    case (JObj ops)
    with Cons.prems have "list_all (\<lambda>(k, a). operator_of k \<noteq> None) ops"
      by (simp add: well_formed_query_def c)
    then show ?thesis
      by (simp add: JObj constraint_holds_def matchesOperators_supported)
  next
    case (JArr xs)
    with Cons.prems show ?thesis by (simp add: well_formed_query_def c)
  qed (simp_all add: constraint_holds_def)
  show ?case
  proof (cases "is_object qv")
    case True
    with head have "matchesOperators (get_prop d field) (entries qv) = constraint_holds d c"
      by (simp add: c)
    with True show ?thesis using Cons.IH [OF wq] by (auto simp: c)
  next
    case False
    with head have "strict_eq (get_prop d field) (Some qv) = constraint_holds d c"
      by (simp add: c)
    with False show ?thesis using Cons.IH [OF wq] by (auto simp: c)
  qed
qed

theorem matchesQuery_conjunction_witness:
  "well_formed_query adult_juan_query \<and> matchesQuery juan adult_juan_query \<and>
   constraint_holds juan (''edad'', JObj [(''$gte'', JNum 18), (''$lt'', JNum 30)]) \<and>
   constraint_holds juan (''nombre'', JStr ''Juan'')"
proof -
  have wf: "well_formed_query adult_juan_query"
    by (simp add: well_formed_query_def adult_juan_query_def operator_of_def
        supported_operators_def)
  have m: "matchesQuery juan adult_juan_query"
    by (simp add: adult_juan_query_def juan_def get_prop_def js_ge_def js_lt_def
        js_compare_def)
  from matchesQuery_conjunction [OF wf, of juan] m
  have "\<forall>c \<in> set adult_juan_query. constraint_holds juan c" by simp
  then show ?thesis using wf m by (simp add: adult_juan_query_def)
qed

text \<open>
  Claim C10. An operator object all of whose keys lie outside the supported set is
  satisfied by every value: \<^verbatim>\<open>_matchesOperators\<close> returns \<^verbatim>\<open>true\<close>, so the
  constraint drops out of \<^verbatim>\<open>_matchesQuery\<close> and the rest of the query decides.
\<close>

theorem unrecognized_operators_hold:
  "list_all (\<lambda>(k, a). operator_of k = None) ops \<Longrightarrow>
   matchesOperators v ops \<and>
   matchesQuery d ((field, JObj ops) # q) = matchesQuery d q"
  by (simp add: matchesOperators_unsupported)

theorem unrecognized_operators_hold_witness:
  "operator_of ''$regex'' = None \<and>
   matchesOperators None [(''$regex'', JStr ''^J'')] \<and>
   matchesQuery [] [(''nombre'', JObj [(''$regex'', JStr ''^J'')])]"
proof -
  have u: "list_all (\<lambda>(k, a). operator_of k = None) [(''$regex'', JStr ''^J'')]"
    by (simp add: operator_of_def supported_operators_def)
  from unrecognized_operators_hold [OF u, of None "[]" "''nombre''" "[]"] u
  show ?thesis by simp
qed

section \<open>Properties of the store\<close>

lemma get_set_prop [simp]:
  "get_prop (set_prop k v obj) k' = (if k' = k then Some v else get_prop obj k')"
  by (simp add: get_prop_def set_prop_def update_conv')

lemma get_delete_prop [simp]:
  "get_prop (delete_prop k obj) k' = (if k' = k then None else get_prop obj k')"
  by (simp add: get_prop_def delete_prop_def delete_conv')

lemma updateIndexes_frame [simp]:
  "tables (updateIndexes t d i s) = tables s"
  "data (updateIndexes t d i s) = data s"
  "primaryKeyMap (updateIndexes t d i s) = primaryKeyMap s"
  "uniqueKeyMap (updateIndexes t d i s) = uniqueKeyMap s"
  "disk (updateIndexes t d i s) = disk s"
  "fs_writable (updateIndexes t d i s) = fs_writable s"
  by (simp_all add: updateIndexes_def Let_def)

lemma removeFromIndexes_frame [simp]:
  "tables (removeFromIndexes t d s) = tables s"
  "data (removeFromIndexes t d s) = data s"
  "primaryKeyMap (removeFromIndexes t d s) = primaryKeyMap s"
  "uniqueKeyMap (removeFromIndexes t d s) = uniqueKeyMap s"
  "disk (removeFromIndexes t d s) = disk s"
  "fs_writable (removeFromIndexes t d s) = fs_writable s"
  by (simp_all add: removeFromIndexes_def split: option.splits)

lemma updateUniqueKeyMap_frame [simp]:
  "tables (updateUniqueKeyMap t d s) = tables s"
  "data (updateUniqueKeyMap t d s) = data s"
  "primaryKeyMap (updateUniqueKeyMap t d s) = primaryKeyMap s"
  "indexes (updateUniqueKeyMap t d s) = indexes s"
  "disk (updateUniqueKeyMap t d s) = disk s"
  "fs_writable (updateUniqueKeyMap t d s) = fs_writable s"
  by (simp_all add: updateUniqueKeyMap_def Let_def split: option.splits)

lemma removeFromUniqueKeyMap_frame [simp]:
  "tables (removeFromUniqueKeyMap t d s) = tables s"
  "data (removeFromUniqueKeyMap t d s) = data s"
  "primaryKeyMap (removeFromUniqueKeyMap t d s) = primaryKeyMap s"
  "indexes (removeFromUniqueKeyMap t d s) = indexes s"
  "disk (removeFromUniqueKeyMap t d s) = disk s"
  "fs_writable (removeFromUniqueKeyMap t d s) = fs_writable s"
  by (simp_all add: removeFromUniqueKeyMap_def split: option.splits)


lemma saveDatabase_frame:
  "saveDatabase s = Inr s' \<Longrightarrow>
   tables s' = tables s \<and> data s' = data s \<and> primaryKeyMap s' = primaryKeyMap s \<and>
   uniqueKeyMap s' = uniqueKeyMap s \<and> indexes s' = indexes s \<and> disk s' = Stored (data s)"
  by (auto simp: saveDatabase_def split: if_splits)

lemma push_row_frame [simp]:
  "tables (push_row t d s) = tables s"
  "primaryKeyMap (push_row t d s) = primaryKeyMap s"
  "uniqueKeyMap (push_row t d s) = uniqueKeyMap s"
  "indexes (push_row t d s) = indexes s"
  "disk (push_row t d s) = disk s"
  "fs_writable (push_row t d s) = fs_writable s"
  "data (push_row t d s) = set_prop t (rows_of s t @ [d]) (data s)"
  by (simp_all add: push_row_def)

lemma ensure_table_frame [simp]:
  "tables (ensure_table t s) = tables s"
  "primaryKeyMap (ensure_table t s) = primaryKeyMap s"
  "uniqueKeyMap (ensure_table t s) = uniqueKeyMap s"
  "disk (ensure_table t s) = disk s"
  "fs_writable (ensure_table t s) = fs_writable s"
  by (simp_all add: ensure_table_def)

lemma ensure_table_exists: "get_prop (data s) t \<noteq> None \<Longrightarrow> ensure_table t s = s"
  by (auto simp: ensure_table_def)

lemma getNextPrimaryKey_frame:
  "getNextPrimaryKey t s = (k, s') \<Longrightarrow>
   tables s' = tables s \<and> data s' = data s \<and> uniqueKeyMap s' = uniqueKeyMap s \<and>
   indexes s' = indexes s \<and> disk s' = disk s \<and> fs_writable s' = fs_writable s"
  by (auto simp: getNextPrimaryKey_def calculateNextPrimaryKey_def Let_def split: option.splits if_splits)

lemma assign_primary_key_frame:
  "assign_primary_key t d s = (keyed, s') \<Longrightarrow>
   tables s' = tables s \<and> data s' = data s \<and> uniqueKeyMap s' = uniqueKeyMap s \<and>
   indexes s' = indexes s \<and> disk s' = disk s \<and> fs_writable s' = fs_writable s"
  by (auto simp: assign_primary_key_def split: if_splits prod.splits dest: getNextPrimaryKey_frame)


lemma set_has_add_same: "primitive v \<Longrightarrow> set_has (set_add v m) v"
  by (cases v) (auto simp: set_add_def set_has_def list_ex_iff)

lemma set_has_add_other: "set_has m w \<Longrightarrow> set_has (set_add v m) w"
  by (auto simp: set_add_def set_has_def list_ex_iff)

lemma add_unique_values_keeps:
  "holds_value reg f v \<Longrightarrow> holds_value (add_unique_values U d reg) f v"
proof (induction U arbitrary: reg)
  case Nil
  then show ?case by simp
next
  case (Cons u U)
  show ?case
    unfolding add_unique_values.simps Let_def
  proof (rule Cons.IH)
    show "holds_value (set_prop u
            (case get_prop d u of None \<Rightarrow> (case get_prop reg u of None \<Rightarrow> [] | Some m \<Rightarrow> m)
             | Some v \<Rightarrow> if v = JNull then (case get_prop reg u of None \<Rightarrow> [] | Some m \<Rightarrow> m)
                         else set_add v (case get_prop reg u of None \<Rightarrow> [] | Some m \<Rightarrow> m)) reg) f v"
      using Cons.prems
      by (auto simp: holds_value_def set_has_add_other split: option.splits)
  qed
qed

lemma add_unique_values_adds:
  "f \<in> set U \<Longrightarrow> get_prop d f = Some v \<Longrightarrow> v \<noteq> JNull \<Longrightarrow> primitive v \<Longrightarrow>
   holds_value (add_unique_values U d reg) f v"
proof (induction U arbitrary: reg)
  case Nil
  then show ?case by simp
next
  case (Cons u U)
  show ?case
  proof (cases "u = f")
    case True
    have "holds_value (set_prop f (set_add v (case get_prop reg f of None \<Rightarrow> [] | Some m \<Rightarrow> m)) reg) f v"
      using Cons.prems by (simp add: holds_value_def set_has_add_same)
    then show ?thesis
      using Cons.prems True by (simp add: Let_def add_unique_values_keeps)
  next
    case False
    with Cons.prems have "f \<in> set U" by simp
    from Cons.IH [OF this Cons.prems(2,3,4)] show ?thesis
      by (simp add: Let_def)
  qed
qed

lemma check_unique_keys_collision:
  "f \<in> set U \<Longrightarrow> get_prop d f = Some v \<Longrightarrow> v \<noteq> JNull \<Longrightarrow> registry_has s t f v \<Longrightarrow>
   \<not> check_unique_keys s t U d"
  by (induction U) (auto split: option.splits)

lemma registry_has_holds:
  "registry_has s t f v =
     (case get_prop (uniqueKeyMap s) t of None \<Rightarrow> False | Some reg \<Rightarrow> holds_value reg f v)"
  by (simp add: registry_has_def holds_value_def split: option.splits)

lemma check_unique_keys_cong:
  "uniqueKeyMap s' = uniqueKeyMap s \<Longrightarrow> check_unique_keys s' t U d = check_unique_keys s t U d"
  by (induction U) (auto simp: registry_has_def split: option.splits)

lemma stamp_new_other:
  "f \<noteq> ''_createdAt'' \<Longrightarrow> f \<noteq> ''_updatedAt'' \<Longrightarrow> get_prop (stamp_new now d) f = get_prop d f"
  by (simp add: stamp_new_def)

lemma assign_primary_key_keeps:
  "assign_primary_key t d s = (keyed, s') \<Longrightarrow> get_prop d f = Some v \<Longrightarrow> get_prop keyed f = Some v"
  by (auto simp: assign_primary_key_def split: if_splits prod.splits)

lemma updateUniqueKeyMap_registry:
  "uniqueKeyMap (updateUniqueKeyMap t d s) =
     (case get_prop (tables s) t of
        None \<Rightarrow> uniqueKeyMap s
      | Some cfg \<Rightarrow>
          set_prop t (add_unique_values (unique_or_empty cfg) d
                        (case get_prop (uniqueKeyMap s) t of None \<Rightarrow> [] | Some r \<Rightarrow> r))
            (uniqueKeyMap s))"
  by (simp add: updateUniqueKeyMap_def Let_def split: option.splits)

text \<open>What a successful insert leaves behind.\<close>

lemma insert_doc_success:
  assumes "insert_doc t d now s = (Inr newDoc, s')"
  shows "\<exists>keyed s2. assign_primary_key t d (ensure_table t s) = (keyed, s2) \<and>
           newDoc = stamp_new now keyed \<and>
           validateDataAgainstSchema (ensure_table t s) t d = None \<and>
           checkUniqueConstraints s2 t keyed \<and>
           fs_writable s \<and>
           tables s' = tables s \<and>
           data s' = set_prop t (rows_of s2 t @ [newDoc]) (data s2) \<and>
           uniqueKeyMap s' =
             (case get_prop (tables s) t of
                None \<Rightarrow> uniqueKeyMap s
              | Some cfg \<Rightarrow>
                  set_prop t (add_unique_values (unique_or_empty cfg) newDoc
                                (case get_prop (uniqueKeyMap s) t of None \<Rightarrow> [] | Some r \<Rightarrow> r))
                    (uniqueKeyMap s)) \<and>
           primaryKeyMap s' = primaryKeyMap s2"
proof -
  obtain keyed s2 where a: "assign_primary_key t d (ensure_table t s) = (keyed, s2)"
    by (cases "assign_primary_key t d (ensure_table t s)")
  note fr = assign_primary_key_frame [OF a]
  from assms a have v: "validateDataAgainstSchema (ensure_table t s) t d = None"
    and c: "checkUniqueConstraints s2 t keyed"
    by (auto simp: insert_doc_def Let_def split: option.splits if_splits)
  let ?nd = "stamp_new now keyed"
  let ?s5 = "updateUniqueKeyMap t ?nd
               (updateIndexes t ?nd (length (rows_of (push_row t ?nd s2) t) - 1) (push_row t ?nd s2))"
  from assms a v c have sv: "saveDatabase ?s5 = Inr s'" and nd: "newDoc = ?nd"
    by (auto simp: insert_doc_def Let_def split: sum.splits)
  from sv have w: "fs_writable ?s5" by (auto simp: saveDatabase_def split: if_splits)
  note sf = saveDatabase_frame [OF sv]
  show ?thesis
    using a nd v c w fr sf
    by (simp add: updateUniqueKeyMap_registry cong: option.case_cong)
qed

lemma rows_of_ensure_table [simp]: "rows_of (ensure_table t s) t = rows_of s t"
  by (auto simp: rows_of_def ensure_table_def split: option.splits)

lemma rows_of_cong: "data s' = data s \<Longrightarrow> rows_of s' t = rows_of s t"
  by (simp add: rows_of_def)


lemma assign_primary_key_state:
  "snd (assign_primary_key t d s) =
     (if get_prop d (table_pk s t) = None then snd (getNextPrimaryKey t s) else s)"
  by (simp add: assign_primary_key_def split: prod.splits)





lemma key_floor_cong: "primaryKeyMap s' = primaryKeyMap s \<Longrightarrow> key_floor s' t = key_floor s t"
  by (simp add: key_floor_def)










lemma check_unique_keys_delete:
  "k \<notin> set U \<Longrightarrow> check_unique_keys s t U (delete_prop k d) = check_unique_keys s t U d"
  by (induction U) (auto split: option.splits)

lemma checkUniqueConstraints_without_pk:
  "k \<notin> set (unique_fields s t) \<Longrightarrow>
   checkUniqueConstraints s t (delete_prop k d) = checkUniqueConstraints s t d"
  by (auto simp: checkUniqueConstraints_def unique_fields_def check_unique_keys_delete
      split: option.splits)

lemma transaction_failure:
  "transactionFn s = (Inl e, s1) \<Longrightarrow> transaction transactionFn s = (Inl e, s1\<lparr>data := data s\<rparr>)"
  by (simp add: transaction_def)

lemma insert_then_fail_fails: "\<exists>e. fst (insert_then_fail t d now msg s) = Inl e"
  by (auto simp: insert_then_fail_def split: prod.splits sum.splits)

section \<open>The claims about the store\<close>

text \<open>
  Claim C1, at the input where the code departs from it. \<^verbatim>\<open>createTable\<close> indexes
  the primary key; after two inserts the index is right. \<^verbatim>\<open>delete\<close> of the first
  document removes that document's entry and splices the sequence, and rebuilds nothing:
  the second document is now at position 0 while its entry still says 1, and
  \<^verbatim>\<open>findById\<close> answers with the empty copy of a position past the end.
\<close>

theorem delete_leaves_stale_positions:
  "index_consistent usuarios_two ''usuarios'' \<and>
   rows_of usuarios_after_delete ''usuarios'' = [luis_stored] \<and>
   get_prop (indexes usuarios_after_delete) ''usuarios'' = Some [(''id'', [(''2'', 1)])] \<and>
   \<not> index_consistent usuarios_after_delete ''usuarios'' \<and>
   findById ''usuarios'' (JNum 2) usuarios_after_delete = Some []"
  by code_simp




text \<open>
  Claim C3 as stated fails in its last part: the key is taken from the counter before the
  uniqueness check, so a rejected document that brought no primary key leaves the allocator
  one further than it was.
\<close>

theorem failed_insert_advances_counter:
  "fst (insert_doc ''usuarios'' ana_mail ''t1'' (fresh_store email_unique)) = Inr ana_mail_stored \<and>
   fst (insert_doc ''usuarios'' ana_mail ''t2'' one_user) = Inl UniqueViolation \<and>
   primaryKeyMap one_user = [(''usuarios'', 2)] \<and>
   primaryKeyMap (snd (insert_doc ''usuarios'' ana_mail ''t2'' one_user)) = [(''usuarios'', 3)]"
  by code_simp

text \<open>
  Claim C3, amended. In a table whose configuration lists a unique field (other than the two
  time stamps the store writes itself), after a document with a primitive non-null value on
  that field was inserted, inserting a second document that passes the schema and carries
  the same value fails with the uniqueness error. The failed call leaves the sequences, the
  registry, the indexes and the file as they were; the whole instance is unchanged when the
  document brought a primary key, and otherwise differs exactly by the call of
  \<^verbatim>\<open>getNextPrimaryKey\<close>. If the table was empty before, it holds the first document
  only.
\<close>

theorem failed_unique_insert:
  assumes cfg: "get_prop (tables s) t = Some cfg"
    and f: "f \<in> set (unique_or_empty cfg)" "f \<noteq> ''_createdAt''" "f \<noteq> ''_updatedAt''"
    and v: "primitive v" "v \<noteq> JNull"
    and d1: "get_prop d1 f = Some v" and d2: "get_prop d2 f = Some v"
    and first: "insert_doc t d1 now1 s = (Inr doc1, s1)"
    and valid: "validateDataAgainstSchema s1 t d2 = None"
  shows "insert_doc t d2 now2 s1 =
           (Inl UniqueViolation,
            if get_prop d2 (table_pk s1 t) = None then snd (getNextPrimaryKey t s1) else s1) \<and>
         data (snd (insert_doc t d2 now2 s1)) = data s1 \<and>
         uniqueKeyMap (snd (insert_doc t d2 now2 s1)) = uniqueKeyMap s1 \<and>
         indexes (snd (insert_doc t d2 now2 s1)) = indexes s1 \<and>
         disk (snd (insert_doc t d2 now2 s1)) = disk s1 \<and>
         (rows_of s t = [] \<longrightarrow> get_prop (data (snd (insert_doc t d2 now2 s1))) t = Some [doc1])"
proof -
  from insert_doc_success [OF first] obtain keyed s2 where
    a1: "assign_primary_key t d1 (ensure_table t s) = (keyed, s2)"
    and doc1: "doc1 = stamp_new now1 keyed"
    and tabs: "tables s1 = tables s"
    and dat: "data s1 = set_prop t (rows_of s2 t @ [doc1]) (data s2)"
    and reg: "uniqueKeyMap s1 =
                set_prop t (add_unique_values (unique_or_empty cfg) doc1
                              (case get_prop (uniqueKeyMap s) t of None \<Rightarrow> [] | Some r \<Rightarrow> r))
                  (uniqueKeyMap s)"
    by (auto simp: cfg)
  have "get_prop keyed f = Some v"
    using a1 d1 by (rule assign_primary_key_keeps)
  then have doc1_f: "get_prop doc1 f = Some v"
    using f by (simp add: doc1 stamp_new_other)
  have has: "registry_has s1 t f v"
    using add_unique_values_adds [OF f(1) doc1_f v(2) v(1)]
    by (simp add: registry_has_holds reg)
  have exists: "ensure_table t s1 = s1"
    by (rule ensure_table_exists) (simp add: dat)
  obtain keyed2 s3 where a2: "assign_primary_key t d2 s1 = (keyed2, s3)"
    by (cases "assign_primary_key t d2 s1")
  note fr = assign_primary_key_frame [OF a2]
  have k2: "get_prop keyed2 f = Some v"
    using a2 d2 by (rule assign_primary_key_keeps)
  have "registry_has s3 t f v"
    using has fr by (simp add: registry_has_def)
  then have "\<not> check_unique_keys s3 t (unique_or_empty cfg) keyed2"
    using f(1) k2 v(2) by (intro check_unique_keys_collision)
  then have nocheck: "\<not> checkUniqueConstraints s3 t keyed2"
    using fr by (simp add: checkUniqueConstraints_def tabs cfg)
  have res: "insert_doc t d2 now2 s1 = (Inl UniqueViolation, s3)"
    using valid a2 nocheck by (simp add: insert_doc_def exists)
  have s3: "s3 = (if get_prop d2 (table_pk s1 t) = None then snd (getNextPrimaryKey t s1) else s1)"
    using assign_primary_key_state [of t d2 s1] a2 by simp
  have rows: "rows_of s t = [] \<longrightarrow> get_prop (data s3) t = Some [doc1]"
    using fr assign_primary_key_frame [OF a1]
    by (simp add: dat rows_of_cong [of s2 "ensure_table t s"])
  show ?thesis
    using res s3 fr rows by simp
qed

theorem failed_unique_insert_witness:
  "insert_doc ''usuarios'' ana_mail ''t2'' one_user =
     (Inl UniqueViolation, snd (getNextPrimaryKey ''usuarios'' one_user)) \<and>
   data (snd (insert_doc ''usuarios'' ana_mail ''t2'' one_user)) = data one_user \<and>
   uniqueKeyMap (snd (insert_doc ''usuarios'' ana_mail ''t2'' one_user)) = uniqueKeyMap one_user \<and>
   get_prop (data (snd (insert_doc ''usuarios'' ana_mail ''t2'' one_user))) ''usuarios'' =
     Some [ana_mail_stored]"
proof -
  let ?cfg = "\<lparr>primaryKey = None, unique = Some [''email''], schema = None\<rparr>"
  have cfg: "get_prop (tables (fresh_store email_unique)) ''usuarios'' = Some ?cfg"
    by (simp add: fresh_store_def email_unique_def get_prop_def)
  have f: "''email'' \<in> set (unique_or_empty ?cfg)" "''email'' \<noteq> ''_createdAt''"
    "''email'' \<noteq> ''_updatedAt''"
    by (simp_all add: unique_or_empty_def)
  have v: "primitive (JStr ''ana@example.com'')" "JStr ''ana@example.com'' \<noteq> JNull"
    by simp_all
  have d: "get_prop ana_mail ''email'' = Some (JStr ''ana@example.com'')"
    by (simp add: ana_mail_def get_prop_def)
  have "fst (insert_doc ''usuarios'' ana_mail ''t1'' (fresh_store email_unique)) = Inr ana_mail_stored"
    by code_simp
  then have first: "insert_doc ''usuarios'' ana_mail ''t1'' (fresh_store email_unique) =
                (Inr ana_mail_stored, one_user)"
    by (simp add: one_user_def prod_eq_iff)
  have valid: "validateDataAgainstSchema one_user ''usuarios'' ana_mail = None"
    by code_simp
  have nopk: "get_prop ana_mail (table_pk one_user ''usuarios'') = None"
    by code_simp
  have empty: "rows_of (fresh_store email_unique) ''usuarios'' = []"
    by code_simp
  note r = failed_unique_insert [OF cfg f v d d first valid, of "''t2''"]
  from r nopk have 1: "insert_doc ''usuarios'' ana_mail ''t2'' one_user =
     (Inl UniqueViolation, snd (getNextPrimaryKey ''usuarios'' one_user))" by simp
  from r empty show ?thesis unfolding 1 by blast
qed

text \<open>
  Claim C4. A transaction whose function inserts a document and then throws ends in that
  failure, thrown again to the caller; \<^verbatim>\<open>this.data\<close>, and with it the sequence of
  the table, is what it was before the transaction; and the file is as the function left it:
  the rollback writes nothing.
\<close>

theorem transaction_rollback:
  "fst (transaction (insert_then_fail t d now msg) s) = fst (insert_then_fail t d now msg s) \<and>
   isl (fst (transaction (insert_then_fail t d now msg) s)) \<and>
   (\<not> isl (fst (insert_doc t d now s)) \<longrightarrow>
      fst (transaction (insert_then_fail t d now msg) s) = Inl (Thrown msg)) \<and>
   data (snd (transaction (insert_then_fail t d now msg) s)) = data s \<and>
   get_prop (data (snd (transaction (insert_then_fail t d now msg) s))) t = get_prop (data s) t \<and>
   disk (snd (transaction (insert_then_fail t d now msg) s)) =
     disk (snd (insert_then_fail t d now msg s))"
proof -
  obtain e s1 where f: "insert_then_fail t d now msg s = (Inl e, s1)"
    using insert_then_fail_fails [of t d now msg s]
    by (cases "insert_then_fail t d now msg s") auto
  have thrown: "\<not> isl (fst (insert_doc t d now s)) \<longrightarrow> e = Thrown msg"
    using f by (auto simp: insert_then_fail_def split: prod.splits sum.splits)
  from transaction_failure [of "insert_then_fail t d now msg" s e s1, OF f] f thrown
  show ?thesis by simp
qed

theorem transaction_rollback_witness:
  "fst (transaction (insert_then_fail ''usuarios'' luis ''t2'' ''boom'') dup_store) = Inl (Thrown ''boom'') \<and>
   rows_of (snd (insert_then_fail ''usuarios'' luis ''t2'' ''boom'' dup_store)) ''usuarios'' =
     [ana_stored, luis_stored] \<and>
   data (snd (transaction (insert_then_fail ''usuarios'' luis ''t2'' ''boom'') dup_store)) = data dup_store \<and>
   rows_of dup_store ''usuarios'' = [ana_stored] \<and>
   disk (snd (transaction (insert_then_fail ''usuarios'' luis ''t2'' ''boom'') dup_store)) =
     Stored [(''usuarios'', [ana_stored, luis_stored])]"
proof -
  have ok: "\<not> isl (fst (insert_doc ''usuarios'' luis ''t2'' dup_store))" by code_simp
  have inside: "rows_of (snd (insert_then_fail ''usuarios'' luis ''t2'' ''boom'' dup_store)) ''usuarios'' =
     [ana_stored, luis_stored]" by code_simp
  have before: "rows_of dup_store ''usuarios'' = [ana_stored]" by code_simp
  have written: "disk (snd (insert_then_fail ''usuarios'' luis ''t2'' ''boom'' dup_store)) =
     Stored [(''usuarios'', [ana_stored, luis_stored])]" by code_simp
  note r = transaction_rollback [of "''usuarios''" luis "''t2''" "''boom''" dup_store]
  from r ok have 1: "fst (transaction (insert_then_fail ''usuarios'' luis ''t2'' ''boom'') dup_store) =
     Inl (Thrown ''boom'')" by blast
  from r written have 2: "disk (snd (transaction (insert_then_fail ''usuarios'' luis ''t2'' ''boom'') dup_store)) =
     Stored [(''usuarios'', [ana_stored, luis_stored])]" by simp
  from r 1 2 inside before show ?thesis by blast
qed

text \<open>
  Claim C6, at the input where the code departs from it. With the primary key indexed, the
  query \<^verbatim>\<open>{id: {$gt: 0}}\<close> has one field and that field has an index, so
  \<^verbatim>\<open>find\<close> looks the operator object up as a key of the index
  (\<^verbatim>\<open>[object Object]\<close>) and returns nothing, while both documents satisfy the
  predicate.
\<close>

theorem find_operator_query_on_index:
  "get_prop (indexes usuarios_two) ''usuarios'' = Some [(''id'', [(''1'', 0), (''2'', 1)])] \<and>
   find_docs ''usuarios'' (Some id_above_zero) usuarios_two = [] \<and>
   filter (\<lambda>d. matchesQuery d id_above_zero) (rows_of usuarios_two ''usuarios'') = [ana_stored, luis_stored]"
  by code_simp

text \<open>
  Claim C9. Where the primary-key field is not among the unique fields of the table (and is
  not one of the two time stamps), a document that passes the schema, collides on no unique
  field and brings the primary-key value of a stored document is inserted, given that the
  file can be written: the sequence grows by the new document, which keeps that value, and
  two live documents share it. The counter is not touched.
\<close>

theorem duplicate_primary_key_accepted:
  assumes rows: "get_prop (data s) t = Some rows"
    and e: "e \<in> set rows" "get_prop e (table_pk s t) = Some v"
    and d: "get_prop d (table_pk s t) = Some v"
    and pk: "table_pk s t \<notin> set (unique_fields s t)"
      "table_pk s t \<noteq> ''_createdAt''" "table_pk s t \<noteq> ''_updatedAt''"
    and valid: "validateDataAgainstSchema s t d = None"
    and others: "checkUniqueConstraints s t (delete_prop (table_pk s t) d)"
    and writable: "fs_writable s"
  shows "fst (insert_doc t d now s) = Inr (stamp_new now d) \<and>
         get_prop (data (snd (insert_doc t d now s))) t = Some (rows @ [stamp_new now d]) \<and>
         get_prop (stamp_new now d) (table_pk s t) = Some v \<and>
         e \<in> set (rows @ [stamp_new now d]) \<and>
         primaryKeyMap (snd (insert_doc t d now s)) = primaryKeyMap s"
proof -
  let ?nd = "stamp_new now d"
  have ex: "ensure_table t s = s"
    by (rule ensure_table_exists) (simp add: rows)
  have a: "assign_primary_key t d s = (d, s)"
    by (simp add: assign_primary_key_def d)
  have c: "checkUniqueConstraints s t d"
    using others checkUniqueConstraints_without_pk [OF pk(1)] by simp
  let ?s5 = "updateUniqueKeyMap t ?nd
               (updateIndexes t ?nd (length (rows_of (push_row t ?nd s) t) - 1) (push_row t ?nd s))"
  have w5: "fs_writable ?s5" using writable by simp
  then obtain s6 where sv: "saveDatabase ?s5 = Inr s6"
    by (simp add: saveDatabase_def)
  have res: "insert_doc t d now s = (Inr ?nd, s6)"
    using valid a c sv by (simp add: insert_doc_def ex Let_def)
  from saveDatabase_frame [OF sv]
  have dat: "data s6 = set_prop t (rows @ [?nd]) (data s)" and keys: "primaryKeyMap s6 = primaryKeyMap s"
    by (simp_all add: rows_of_def rows)
  have key: "get_prop ?nd (table_pk s t) = Some v"
    using d pk(2,3) by (simp add: stamp_new_other)
  show ?thesis
    using res dat keys key e(1) by simp
qed

theorem duplicate_primary_key_accepted_witness:
  "fst (insert_doc ''usuarios'' ana_twin ''t2'' dup_store) = Inr (stamp_new ''t2'' ana_twin) \<and>
   get_prop (data (snd (insert_doc ''usuarios'' ana_twin ''t2'' dup_store))) ''usuarios'' =
     Some [ana_stored, stamp_new ''t2'' ana_twin] \<and>
   get_prop ana_stored ''id'' = Some (JNum 1) \<and>
   get_prop (stamp_new ''t2'' ana_twin) ''id'' = Some (JNum 1)"
proof -
  have pk: "table_pk dup_store ''usuarios'' = ''id''" by code_simp
  have rows: "get_prop (data dup_store) ''usuarios'' = Some [ana_stored]" by code_simp
  have e: "ana_stored \<in> set [ana_stored]"
    "get_prop ana_stored (table_pk dup_store ''usuarios'') = Some (JNum 1)"
    by (simp_all add: pk ana_stored_def get_prop_def)
  have d: "get_prop ana_twin (table_pk dup_store ''usuarios'') = Some (JNum 1)"
    by (simp add: pk ana_twin_def get_prop_def)
  have u: "table_pk dup_store ''usuarios'' \<notin> set (unique_fields dup_store ''usuarios'')"
    by code_simp
  have ts: "table_pk dup_store ''usuarios'' \<noteq> ''_createdAt''"
    "table_pk dup_store ''usuarios'' \<noteq> ''_updatedAt''"
    by (simp_all add: pk)
  have valid: "validateDataAgainstSchema dup_store ''usuarios'' ana_twin = None" by code_simp
  have others: "checkUniqueConstraints dup_store ''usuarios''
                  (delete_prop (table_pk dup_store ''usuarios'') ana_twin)" by code_simp
  have w: "fs_writable dup_store" by code_simp
  from duplicate_primary_key_accepted [OF rows e d u ts valid others w, of "''t2''"] e(2)
  show ?thesis by (simp add: pk)
qed
section \<open>Properties of the codec\<close>

lemma unat_hex_digit:
  assumes "n < 16"
  shows "unat (hex_digit n) = (if n < 10 then 48 + n else 87 + n)"
proof (cases "n < 10")
  case True
  have "unat (word_of_nat (48 + n) :: 16 word) = 48 + n"
    using assms by (intro of_nat_inverse [OF refl]) simp
  with True show ?thesis by (simp only: hex_digit_def if_True)
next
  case False
  have "unat (word_of_nat (87 + n) :: 16 word) = 87 + n"
    using assms by (intro of_nat_inverse [OF refl]) simp
  with False show ?thesis by (simp only: hex_digit_def if_False)
qed

lemma hex_value_digit: "n < 16 \<Longrightarrow> hex_value (hex_digit n) = Some n"
  by (simp add: hex_value_def unat_hex_digit Let_def)

lemma hex_digit_not_colon: "n < 16 \<Longrightarrow> hex_digit n \<noteq> colon"
proof
  assume n: "n < 16" and "hex_digit n = colon"
  then have "unat (hex_digit n) = 58" by (simp add: colon_def)
  with n show False by (simp add: unat_hex_digit split: if_splits)
qed

lemma byte_nibbles: "unat (b :: 8 word) div 16 < 16" "unat b mod 16 < 16"
proof -
  have "unat b < 256" using unsigned_less [of b, where 'a = nat] by simp
  then show "unat b div 16 < 16" by simp
  show "unat b mod 16 < 16" by simp
qed

lemma byte_of_nibbles: "(of_nat (16 * (unat b div 16) + unat b mod 16) :: 8 word) = b"
  by simp

lemma hex_decode_encode: "hex_decode (hex_encode bs) = bs"
  by (induction bs) (simp_all add: hex_encode_def hex_value_digit byte_nibbles)

lemma colon_not_in_hex: "colon \<notin> set (hex_encode bs)"
proof (induction bs)
  case Nil
  then show ?case by (simp add: hex_encode_def)
next
  case (Cons b bs)
  have "hex_digit (unat b div 16) \<noteq> colon" "hex_digit (unat b mod 16) \<noteq> colon"
    by (rule hex_digit_not_colon, rule byte_nibbles)+
  with Cons show ?case by (auto simp: hex_encode_def)
qed

lemma split_on_nonempty: "split_on sep xs \<noteq> []"
  by (induction xs) (auto split: list.splits)

lemma split_on_absent: "sep \<notin> set xs \<Longrightarrow> split_on sep xs = [xs]"
  by (induction xs) auto

lemma split_on_once:
  "sep \<notin> set xs \<Longrightarrow> sep \<notin> set ys \<Longrightarrow> split_on sep (xs @ sep # ys) = [xs, ys]"
  by (induction xs) (auto simp: split_on_absent)

lemma length_split_on: "length (split_on sep xs) = Suc (count_list xs sep)"
  by (induction xs) (auto split: list.splits simp: split_on_nonempty)

lemma xor_from_involution: "xor_from i (xor_from i plain k) k = plain"
  by (induction plain arbitrary: i) (simp_all add: xor.assoc)

lemma decryptData_legacy:
  "count_list raw colon \<noteq> 1 \<Longrightarrow> decryptData lib raw k = Inr (legacyDecrypt raw k)"
proof -
  assume "count_list raw colon \<noteq> 1"
  then have "length (split_on colon raw) \<noteq> 2" by (simp add: length_split_on)
  then show ?thesis
    by (auto simp: decryptData_def split: list.splits)
qed

lemma decryptData_encryptData:
  "cipher_inverts lib \<Longrightarrow> length iv = 16 \<Longrightarrow>
   decryptData lib (encryptData lib iv plain k) k = Inr plain"
  by (simp add: decryptData_def encryptData_def split_on_once colon_not_in_hex hex_decode_encode
      cipher_inverts_def)

lemma unit_of_bytes: "push_bit 8 (ucast (ucast (drop_bit 8 u :: 16 word) :: 8 word)) OR ucast (ucast u :: 8 word) = (u :: 16 word)"
  by (rule bit_word_eqI) (auto simp: bit_simps)

lemma bytes_to_units_inverse: "bytes_to_units (units_to_bytes us) = Some us"
  by (induction us) (simp_all add: unit_of_bytes)

lemma plain_library_inverts: "cipher_inverts plain_library"
  by (simp add: cipher_inverts_def plain_library_def bytes_to_units_inverse)

text \<open>
  Claim C5 as stated fails in its second half. The decoder tells the formats apart by the
  number of colons only, and the exclusive or of a text with the passphrase can contain
  exactly one: \<^verbatim>\<open>{}\<close> under the passphrase \<^verbatim>\<open>AB\<close> is \<^verbatim>\<open>:?\<close>, which
  is taken for an empty initialisation vector and a ciphertext and refused.
\<close>

theorem legacy_file_with_one_colon:
  "legacy_encryptData braces passphrase_AB = [58, 63] \<and>
   decryptData plain_library (legacy_encryptData braces passphrase_AB) passphrase_AB = Inl InvalidIV"
  by (simp add: legacy_encryptData_def key_unit_def decryptData_def colon_def braces_def
      passphrase_AB_def)

text \<open>
  Claim C5, amended. Given a cipher whose decryption inverts its encryption and a JSON
  library that parses what it serialised, and a 16-byte initialisation vector:
  \<^verbatim>\<open>decryptData\<close> is a left inverse of \<^verbatim>\<open>encryptData\<close>, loading the file
  written for a Database gives that Database, and a text written by the legacy scheme is
  recovered through \<^verbatim>\<open>_legacyDecrypt\<close> whenever its bytes do not contain exactly
  one colon.
\<close>

theorem codec_round_trip:
  assumes "cipher_inverts lib" and "json_inverts lib db" and "length iv = 16"
  shows "decryptData lib (encryptData lib iv plain k) k = Inr plain \<and>
         deserialize lib (serialize lib iv db k) k = Inr db \<and>
         (count_list (legacy_encryptData plain k) colon \<noteq> 1 \<longrightarrow>
            decryptData lib (legacy_encryptData plain k) k = Inr plain)"
  using assms
  by (simp add: decryptData_encryptData deserialize_def serialize_def json_inverts_def
      decryptData_legacy legacyDecrypt_def legacy_encryptData_def xor_from_involution)

theorem codec_round_trip_witness:
  "decryptData plain_library (encryptData plain_library zero_iv braces passphrase_k) passphrase_k =
     Inr braces \<and>
   deserialize plain_library (serialize plain_library zero_iv [] passphrase_k) passphrase_k = Inr [] \<and>
   legacy_encryptData braces passphrase_k = [16, 22] \<and>
   decryptData plain_library (legacy_encryptData braces passphrase_k) passphrase_k = Inr braces"
proof -
  have j: "json_inverts plain_library []"
    by (simp add: json_inverts_def plain_library_def)
  have iv: "length zero_iv = 16" by (simp add: zero_iv_def)
  have l: "legacy_encryptData braces passphrase_k = [16, 22]"
    by (simp add: legacy_encryptData_def key_unit_def braces_def passphrase_k_def)
  then have c: "count_list (legacy_encryptData braces passphrase_k) colon \<noteq> 1"
    by (simp add: colon_def)
  from codec_round_trip [OF plain_library_inverts j iv, of braces passphrase_k] c l
  show ?thesis by simp
qed

section \<open>Properties of the group stage\<close>






lemma sum_from_Nil [simp]: "sum_from vf s [] = s"
  by (simp add: sum_from_def split: option.splits)

lemma count_from_Nil [simp]: "count_from vf c [] = c"
  by (simp add: count_from_def split: option.splits)








lemma set_own_property_order: "set (own_property_order kvs) = set kvs"
  by (auto simp: own_property_order_def)

lemma group_stage_groups:
  "set (group_stage spec docs) = (\<lambda>kv. finalize_group spec (snd kv)) ` set (accumulate_groups spec docs)"
  by (simp add: group_stage_def set_own_property_order)



end
